theory Spec2Isabelle
  imports Complex_Main
begin

section \<open>Arrays and elementwise arithmetic\<close>

text \<open>
  The notebook computes with one-dimensional numpy arrays. An array is a list. In the
  first part numpy's \<open>float64\<close> and \<open>complex128\<close> elements are taken as the exact
  reals and complex numbers: it says which formulas the cells compute. The statements of
  the phase cell are then given again in float64 arithmetic, for the relations between
  the computed entries that depend on rounding and overflow.

  An elementwise binary operation on two arrays follows numpy's broadcasting rule for one
  dimension: equal lengths are combined index by index, an array of length one is
  stretched to the other length, and every other pair of lengths raises
  \<open>ValueError\<close> (operands could not be broadcast together).
\<close>

datatype error = ValueError

type_synonym 'a array = "error + 'a list"

definition broadcast :: "('a \<Rightarrow> 'b \<Rightarrow> 'c) \<Rightarrow> 'a list \<Rightarrow> 'b list \<Rightarrow> 'c array" where
  "broadcast f xs ys =
     (if length xs = length ys then Inr (map2 f xs ys)
      else if length xs = 1 then Inr (map (f (hd xs)) ys)
      else if length ys = 1 then Inr (map (\<lambda>x. f x (hd ys)) xs)
      else Inl ValueError)"

text \<open>
  Two operand lengths that numpy cannot broadcast together: they differ and neither is one.
\<close>

definition mismatch :: "'a list \<Rightarrow> 'b list \<Rightarrow> bool" where
  "mismatch xs ys \<longleftrightarrow> length xs \<noteq> length ys \<and> length xs \<noteq> 1 \<and> length ys \<noteq> 1"

text \<open>
  The value of an array expression is the array or the error raised while evaluating it;
  an operator applied to a raised operand raises the same error.
\<close>

definition ufunc :: "('a \<Rightarrow> 'b) \<Rightarrow> 'a array \<Rightarrow> 'b array" where
  "ufunc f a = (case a of Inl e \<Rightarrow> Inl e | Inr xs \<Rightarrow> Inr (map f xs))"

definition ufunc2 :: "('a \<Rightarrow> 'b \<Rightarrow> 'c) \<Rightarrow> 'a array \<Rightarrow> 'b array \<Rightarrow> 'c array" where
  "ufunc2 f a b =
     (case a of Inl e \<Rightarrow> Inl e
      | Inr xs \<Rightarrow> (case b of Inl e \<Rightarrow> Inl e | Inr ys \<Rightarrow> broadcast f xs ys))"

definition add :: "('a::plus) array \<Rightarrow> 'a array \<Rightarrow> 'a array" where
  "add = ufunc2 (+)"

definition sub :: "('a::minus) array \<Rightarrow> 'a array \<Rightarrow> 'a array" where
  "sub = ufunc2 (-)"

definition mul :: "('a::times) array \<Rightarrow> 'a array \<Rightarrow> 'a array" where
  "mul = ufunc2 (*)"

definition neg :: "('a::uminus) array \<Rightarrow> 'a array" where
  "neg = ufunc uminus"

definition smul :: "('a::times) \<Rightarrow> 'a array \<Rightarrow> 'a array" where
  \<comment> \<open>a Python scalar times an array\<close>
  "smul c = ufunc ((*) c)"

definition promote :: "real array \<Rightarrow> complex array" where
  \<comment> \<open>the type promotion of a real array that meets a complex operand\<close>
  "promote = ufunc complex_of_real"

definition np_sin :: "real array \<Rightarrow> real array" where
  "np_sin = ufunc sin"

definition np_cos :: "real array \<Rightarrow> real array" where
  "np_cos = ufunc cos"

definition np_abs :: "complex array \<Rightarrow> real array" where
  "np_abs = ufunc cmod"

definition pow2 :: "real array \<Rightarrow> real array" where
  \<comment> \<open>\<open>a**2\<close>\<close>
  "pow2 = ufunc (\<lambda>x. x ^ 2)"

definition np_real :: "complex array \<Rightarrow> real array" where
  "np_real = ufunc Re"

definition np_imag :: "complex array \<Rightarrow> real array" where
  "np_imag = ufunc Im"

definition np_conjugate :: "complex array \<Rightarrow> complex array" where
  "np_conjugate = ufunc cnj"

definition bind :: "error + 'a \<Rightarrow> ('a \<Rightarrow> error + 'b) \<Rightarrow> error + 'b" where
  \<comment> \<open>one statement after another: the first error raised ends the cell\<close>
  "bind m f = (case m of Inl e \<Rightarrow> Inl e | Inr v \<Rightarrow> f v)"

section \<open>The far field and the amplitude scattering matrix\<close>

text \<open>
  A far-field pattern \<open>ffp\<close> is an array of shape \<open>(3, N)\<close>: one complex 3-vector per
  direction. It is kept as the list of its \<open>N\<close> columns, and \<open>ffp[0,:]\<close>,
  \<open>ffp[1,:]\<close>, \<open>ffp[2,:]\<close> are its three rows.
\<close>

datatype vec3 = Vec3 (vx: complex) (vy: complex) (vz: complex)

definition row0 :: "vec3 list \<Rightarrow> complex array" where
  "row0 ffp = Inr (map vx ffp)"

definition row1 :: "vec3 list \<Rightarrow> complex array" where
  "row1 ffp = Inr (map vy ffp)"

definition row2 :: "vec3 list \<Rightarrow> complex array" where
  "row2 ffp = Inr (map vz ffp)"

text \<open>
  \<^verbatim>\<open>A22 = -1j * kExt * ffp_z[2,:]\<close>
  \<^verbatim>\<open>A12 = -1j * kExt * (- np.sin(theta) * ffp_z[0,:] + np.cos(theta) * ffp_z[1,:])\<close>
  \<^verbatim>\<open>A11 = -1j * kExt * (- np.sin(theta) * ffp_y[0,:] + np.cos(theta) * ffp_y[1,:])\<close>
  \<^verbatim>\<open>A21 = -1j * kExt * ffp_y[2,:]\<close>
  Python multiplies from the left, so the scalar \<open>-1j * kExt\<close> is formed first.
\<close>

definition A22_expr :: "complex \<Rightarrow> vec3 list \<Rightarrow> complex array" where
  "A22_expr kExt ffp_z = smul (- \<i> * kExt) (row2 ffp_z)"

definition A12_expr :: "complex \<Rightarrow> real list \<Rightarrow> vec3 list \<Rightarrow> complex array" where
  "A12_expr kExt theta ffp_z =
     smul (- \<i> * kExt)
       (add (mul (promote (neg (np_sin (Inr theta)))) (row0 ffp_z))
            (mul (promote (np_cos (Inr theta))) (row1 ffp_z)))"

definition A11_expr :: "complex \<Rightarrow> real list \<Rightarrow> vec3 list \<Rightarrow> complex array" where
  "A11_expr kExt theta ffp_y =
     smul (- \<i> * kExt)
       (add (mul (promote (neg (np_sin (Inr theta)))) (row0 ffp_y))
            (mul (promote (np_cos (Inr theta))) (row1 ffp_y)))"

definition A21_expr :: "complex \<Rightarrow> vec3 list \<Rightarrow> complex array" where
  "A21_expr kExt ffp_y = smul (- \<i> * kExt) (row2 ffp_y)"

record amplitude =
  A11 :: "complex list"
  A12 :: "complex list"
  A21 :: "complex list"
  A22 :: "complex list"

definition amplitude_builder ::
  "complex \<Rightarrow> real list \<Rightarrow> vec3 list \<Rightarrow> vec3 list \<Rightarrow> error + amplitude" where
  "amplitude_builder kExt theta ffp_z ffp_y =
     bind (A22_expr kExt ffp_z) (\<lambda>a22.
     bind (A12_expr kExt theta ffp_z) (\<lambda>a12.
     bind (A11_expr kExt theta ffp_y) (\<lambda>a11.
     bind (A21_expr kExt ffp_y) (\<lambda>a21.
       Inr \<lparr>A11 = a11, A12 = a12, A21 = a21, A22 = a22\<rparr>))))"

section \<open>The phase scattering matrix\<close>

text \<open>
  The sixteen statements of the phase cell, in the order of the notebook, from
  \<^verbatim>\<open>S11 = 0.5*(abs(A11)**2+abs(A22)**2+abs(A21)**2+abs(A12)**2)\<close> to
  \<^verbatim>\<open>S44 = np.real(np.conjugate(A11)*A22-A12*np.conjugate(A21))\<close>.
  Sums and differences associate to the left, as Python evaluates them.
\<close>

definition S11_expr :: "complex list \<Rightarrow> complex list \<Rightarrow> complex list \<Rightarrow> complex list \<Rightarrow> real array" where
  "S11_expr a11 a12 a21 a22 =
     smul 0.5 (add (add (add (pow2 (np_abs (Inr a11))) (pow2 (np_abs (Inr a22))))
                         (pow2 (np_abs (Inr a21)))) (pow2 (np_abs (Inr a12))))"

definition S12_expr :: "complex list \<Rightarrow> complex list \<Rightarrow> complex list \<Rightarrow> complex list \<Rightarrow> real array" where
  "S12_expr a11 a12 a21 a22 =
     smul 0.5 (sub (add (sub (pow2 (np_abs (Inr a11))) (pow2 (np_abs (Inr a22))))
                         (pow2 (np_abs (Inr a21)))) (pow2 (np_abs (Inr a12))))"

definition S13_expr :: "complex list \<Rightarrow> complex list \<Rightarrow> complex list \<Rightarrow> complex list \<Rightarrow> real array" where
  "S13_expr a11 a12 a21 a22 =
     np_real (add (mul (Inr a11) (np_conjugate (Inr a12))) (mul (Inr a22) (np_conjugate (Inr a21))))"

definition S14_expr :: "complex list \<Rightarrow> complex list \<Rightarrow> complex list \<Rightarrow> complex list \<Rightarrow> real array" where
  "S14_expr a11 a12 a21 a22 =
     np_imag (sub (mul (Inr a11) (np_conjugate (Inr a12))) (mul (Inr a22) (np_conjugate (Inr a21))))"

definition S21_expr :: "complex list \<Rightarrow> complex list \<Rightarrow> complex list \<Rightarrow> complex list \<Rightarrow> real array" where
  "S21_expr a11 a12 a21 a22 =
     smul 0.5 (add (sub (sub (pow2 (np_abs (Inr a11))) (pow2 (np_abs (Inr a22))))
                         (pow2 (np_abs (Inr a21)))) (pow2 (np_abs (Inr a12))))"

definition S22_expr :: "complex list \<Rightarrow> complex list \<Rightarrow> complex list \<Rightarrow> complex list \<Rightarrow> real array" where
  "S22_expr a11 a12 a21 a22 =
     smul 0.5 (sub (sub (add (pow2 (np_abs (Inr a11))) (pow2 (np_abs (Inr a22))))
                         (pow2 (np_abs (Inr a21)))) (pow2 (np_abs (Inr a12))))"

definition S23_expr :: "complex list \<Rightarrow> complex list \<Rightarrow> complex list \<Rightarrow> complex list \<Rightarrow> real array" where
  "S23_expr a11 a12 a21 a22 =
     np_real (sub (mul (Inr a11) (np_conjugate (Inr a12))) (mul (Inr a22) (np_conjugate (Inr a21))))"

definition S24_expr :: "complex list \<Rightarrow> complex list \<Rightarrow> complex list \<Rightarrow> complex list \<Rightarrow> real array" where
  "S24_expr a11 a12 a21 a22 =
     np_imag (add (mul (Inr a11) (np_conjugate (Inr a12))) (mul (Inr a22) (np_conjugate (Inr a21))))"

definition S31_expr :: "complex list \<Rightarrow> complex list \<Rightarrow> complex list \<Rightarrow> complex list \<Rightarrow> real array" where
  "S31_expr a11 a12 a21 a22 =
     np_real (add (mul (Inr a11) (np_conjugate (Inr a21))) (mul (Inr a22) (np_conjugate (Inr a12))))"

definition S32_expr :: "complex list \<Rightarrow> complex list \<Rightarrow> complex list \<Rightarrow> complex list \<Rightarrow> real array" where
  "S32_expr a11 a12 a21 a22 =
     np_real (sub (mul (Inr a11) (np_conjugate (Inr a21))) (mul (Inr a22) (np_conjugate (Inr a12))))"

definition S33_expr :: "complex list \<Rightarrow> complex list \<Rightarrow> complex list \<Rightarrow> complex list \<Rightarrow> real array" where
  "S33_expr a11 a12 a21 a22 =
     np_real (add (mul (np_conjugate (Inr a11)) (Inr a22)) (mul (Inr a12) (np_conjugate (Inr a21))))"

definition S34_expr :: "complex list \<Rightarrow> complex list \<Rightarrow> complex list \<Rightarrow> complex list \<Rightarrow> real array" where
  "S34_expr a11 a12 a21 a22 =
     np_imag (add (mul (Inr a11) (np_conjugate (Inr a22))) (mul (Inr a21) (np_conjugate (Inr a12))))"

definition S41_expr :: "complex list \<Rightarrow> complex list \<Rightarrow> complex list \<Rightarrow> complex list \<Rightarrow> real array" where
  "S41_expr a11 a12 a21 a22 =
     np_imag (add (mul (np_conjugate (Inr a11)) (Inr a21)) (mul (np_conjugate (Inr a12)) (Inr a22)))"

definition S42_expr :: "complex list \<Rightarrow> complex list \<Rightarrow> complex list \<Rightarrow> complex list \<Rightarrow> real array" where
  "S42_expr a11 a12 a21 a22 =
     np_imag (sub (mul (np_conjugate (Inr a11)) (Inr a21)) (mul (np_conjugate (Inr a12)) (Inr a22)))"

definition S43_expr :: "complex list \<Rightarrow> complex list \<Rightarrow> complex list \<Rightarrow> complex list \<Rightarrow> real array" where
  "S43_expr a11 a12 a21 a22 =
     np_imag (sub (mul (Inr a22) (np_conjugate (Inr a11))) (mul (Inr a12) (np_conjugate (Inr a21))))"

definition S44_expr :: "complex list \<Rightarrow> complex list \<Rightarrow> complex list \<Rightarrow> complex list \<Rightarrow> real array" where
  "S44_expr a11 a12 a21 a22 =
     np_real (sub (mul (np_conjugate (Inr a11)) (Inr a22)) (mul (Inr a12) (np_conjugate (Inr a21))))"

record phase =
  S11 :: "real list"
  S12 :: "real list"
  S13 :: "real list"
  S14 :: "real list"
  S21 :: "real list"
  S22 :: "real list"
  S23 :: "real list"
  S24 :: "real list"
  S31 :: "real list"
  S32 :: "real list"
  S33 :: "real list"
  S34 :: "real list"
  S41 :: "real list"
  S42 :: "real list"
  S43 :: "real list"
  S44 :: "real list"

definition phase_builder ::
  "complex list \<Rightarrow> complex list \<Rightarrow> complex list \<Rightarrow> complex list \<Rightarrow> error + phase" where
  "phase_builder a11 a12 a21 a22 =
     bind (S11_expr a11 a12 a21 a22) (\<lambda>s11.
     bind (S12_expr a11 a12 a21 a22) (\<lambda>s12.
     bind (S13_expr a11 a12 a21 a22) (\<lambda>s13.
     bind (S14_expr a11 a12 a21 a22) (\<lambda>s14.
     bind (S21_expr a11 a12 a21 a22) (\<lambda>s21.
     bind (S22_expr a11 a12 a21 a22) (\<lambda>s22.
     bind (S23_expr a11 a12 a21 a22) (\<lambda>s23.
     bind (S24_expr a11 a12 a21 a22) (\<lambda>s24.
     bind (S31_expr a11 a12 a21 a22) (\<lambda>s31.
     bind (S32_expr a11 a12 a21 a22) (\<lambda>s32.
     bind (S33_expr a11 a12 a21 a22) (\<lambda>s33.
     bind (S34_expr a11 a12 a21 a22) (\<lambda>s34.
     bind (S41_expr a11 a12 a21 a22) (\<lambda>s41.
     bind (S42_expr a11 a12 a21 a22) (\<lambda>s42.
     bind (S43_expr a11 a12 a21 a22) (\<lambda>s43.
     bind (S44_expr a11 a12 a21 a22) (\<lambda>s44.
       Inr \<lparr>S11 = s11, S12 = s12, S13 = s13, S14 = s14,
            S21 = s21, S22 = s22, S23 = s23, S24 = s24,
            S31 = s31, S32 = s32, S33 = s33, S34 = s34,
            S41 = s41, S42 = s42, S43 = s43, S44 = s44\<rparr>))))))))))))))))"

section \<open>The phase cell in float64 arithmetic\<close>

text \<open>
  The definitions above say which formulas the cells compute. Two relations between the
  computed entries also depend on how float64 carries the formulas out, on rounding and on
  overflow, so the statements of the phase cell are given a second time with the
  arithmetic of the machine.

  A float64 value is a finite real, one of the two infinities, or NaN. The two signed
  zeros are one value here: the cell never divides and never reads a sign, so nothing it
  computes tells them apart. \<open>rnd\<close> is the rounding of IEEE 754 binary64 in its default
  mode: to the nearest value with a 53-bit significand (\<open>ulp\<close> is the spacing of these
  values around \<open>x\<close>, with gradual underflow below \<open>2^-1022\<close>), ties to the even
  significand (\<open>rhe\<close>), and to an infinity when the rounded magnitude reaches \<open>2^1024\<close>.
\<close>

datatype f64 = Fin real | PInf | NInf | NaN

definition rhe :: "real \<Rightarrow> int" where
  "rhe r = (let f = \<lfloor>r\<rfloor>; d = r - of_int f in
             if d < 1 / 2 then f else if 1 / 2 < d then f + 1
             else if even f then f else f + 1)"

definition expo :: "real \<Rightarrow> int" where
  "expo x = max \<lfloor>log 2 \<bar>x\<bar>\<rfloor> (- 1022)"

definition ulp :: "real \<Rightarrow> real" where
  "ulp x = 2 powr real_of_int (expo x - 52)"

definition rv :: "real \<Rightarrow> real" where
  "rv x = of_int (rhe (x / ulp x)) * ulp x"

definition rnd :: "real \<Rightarrow> f64" where
  "rnd x = (if 2 ^ 1024 \<le> \<bar>rv x\<bar> then (if 0 < x then PInf else NInf) else Fin (rv x))"

fun fneg :: "f64 \<Rightarrow> f64" where
  "fneg (Fin x) = Fin (- x)"
| "fneg PInf = NInf"
| "fneg NInf = PInf"
| "fneg NaN = NaN"

fun fabs :: "f64 \<Rightarrow> f64" where
  "fabs (Fin x) = Fin \<bar>x\<bar>"
| "fabs PInf = PInf"
| "fabs NInf = PInf"
| "fabs NaN = NaN"

fun fadd :: "f64 \<Rightarrow> f64 \<Rightarrow> f64" where
  "fadd (Fin x) (Fin y) = rnd (x + y)"
| "fadd NaN b = NaN"
| "fadd a NaN = NaN"
| "fadd PInf NInf = NaN"
| "fadd NInf PInf = NaN"
| "fadd PInf b = PInf"
| "fadd NInf b = NInf"
| "fadd a PInf = PInf"
| "fadd a NInf = NInf"

definition fsub :: "f64 \<Rightarrow> f64 \<Rightarrow> f64" where
  "fsub a b = fadd a (fneg b)"

fun fmul :: "f64 \<Rightarrow> f64 \<Rightarrow> f64" where
  "fmul (Fin x) (Fin y) = rnd (x * y)"
| "fmul NaN b = NaN"
| "fmul a NaN = NaN"
| "fmul (Fin x) b = (if x = 0 then NaN else if 0 < x then b else fneg b)"
| "fmul a (Fin y) = (if y = 0 then NaN else if 0 < y then a else fneg a)"
| "fmul PInf b = b"
| "fmul NInf b = fneg b"

text \<open>
  \<open>fle a b\<close> is the comparison \<open>a <= b\<close> and \<open>fge a b\<close> is \<open>a >= b\<close>: both are false
  when either side is NaN. \<open>isfinite\<close> is true of the finite values only.
\<close>

fun fle :: "f64 \<Rightarrow> f64 \<Rightarrow> bool" where
  "fle (Fin x) (Fin y) \<longleftrightarrow> x \<le> y"
| "fle NaN b \<longleftrightarrow> False"
| "fle a NaN \<longleftrightarrow> False"
| "fle NInf b \<longleftrightarrow> True"
| "fle a PInf \<longleftrightarrow> True"
| "fle a b \<longleftrightarrow> False"

definition fge :: "f64 \<Rightarrow> f64 \<Rightarrow> bool" where
  "fge a b \<longleftrightarrow> fle b a"

fun fhypot :: "f64 \<Rightarrow> f64 \<Rightarrow> f64" where
  "fhypot (Fin x) (Fin y) = rnd (sqrt (x\<^sup>2 + y\<^sup>2))"
| "fhypot PInf b = PInf"
| "fhypot NInf b = PInf"
| "fhypot a PInf = PInf"
| "fhypot a NInf = PInf"
| "fhypot a b = NaN"

fun isfinite :: "f64 \<Rightarrow> bool" where
  "isfinite (Fin x) \<longleftrightarrow> True"
| "isfinite a \<longleftrightarrow> False"

text \<open>
  A complex128 value is a pair of float64 values. \<open>abs\<close> of a complex number is the
  C library's \<open>hypot\<close> of its two parts, taken here as correctly rounded; on the real
  axis \<open>hypot(x, 0)\<close> is \<open>|x|\<close> exactly in every implementation. The product of two
  complex numbers is formed from the four products of their parts, each rounded, without
  fused multiply-add.
\<close>

datatype c128 = C128 (re: f64) (im: f64)

definition c_abs :: "c128 \<Rightarrow> f64" where
  "c_abs z = fhypot (re z) (im z)"

definition c_conj :: "c128 \<Rightarrow> c128" where
  "c_conj z = C128 (re z) (fneg (im z))"

definition c_add :: "c128 \<Rightarrow> c128 \<Rightarrow> c128" where
  "c_add z w = C128 (fadd (re z) (re w)) (fadd (im z) (im w))"

definition c_sub :: "c128 \<Rightarrow> c128 \<Rightarrow> c128" where
  "c_sub z w = C128 (fsub (re z) (re w)) (fsub (im z) (im w))"

definition c_mul :: "c128 \<Rightarrow> c128 \<Rightarrow> c128" where
  "c_mul z w = C128 (fsub (fmul (re z) (re w)) (fmul (im z) (im w)))
                    (fadd (fmul (re z) (im w)) (fmul (im z) (re w)))"

text \<open>
  The elementwise operations on float64 and complex128 arrays, with the broadcasting of
  the first section, and the sixteen statements of the phase cell. \<open>a**2\<close> on a float64
  array is the product of each element with itself.
\<close>

definition add_f64 :: "f64 array \<Rightarrow> f64 array \<Rightarrow> f64 array" where
  "add_f64 = ufunc2 fadd"

definition sub_f64 :: "f64 array \<Rightarrow> f64 array \<Rightarrow> f64 array" where
  "sub_f64 = ufunc2 fsub"

definition smul_f64 :: "f64 \<Rightarrow> f64 array \<Rightarrow> f64 array" where
  "smul_f64 c = ufunc (fmul c)"

definition pow2_f64 :: "f64 array \<Rightarrow> f64 array" where
  "pow2_f64 = ufunc (\<lambda>x. fmul x x)"

definition abs_c128 :: "c128 array \<Rightarrow> f64 array" where
  "abs_c128 = ufunc c_abs"

definition add_c128 :: "c128 array \<Rightarrow> c128 array \<Rightarrow> c128 array" where
  "add_c128 = ufunc2 c_add"

definition sub_c128 :: "c128 array \<Rightarrow> c128 array \<Rightarrow> c128 array" where
  "sub_c128 = ufunc2 c_sub"

definition mul_c128 :: "c128 array \<Rightarrow> c128 array \<Rightarrow> c128 array" where
  "mul_c128 = ufunc2 c_mul"

definition conjugate_c128 :: "c128 array \<Rightarrow> c128 array" where
  "conjugate_c128 = ufunc c_conj"

definition real_c128 :: "c128 array \<Rightarrow> f64 array" where
  "real_c128 = ufunc re"

definition imag_c128 :: "c128 array \<Rightarrow> f64 array" where
  "imag_c128 = ufunc im"

definition S11_f64 :: "c128 list \<Rightarrow> c128 list \<Rightarrow> c128 list \<Rightarrow> c128 list \<Rightarrow> f64 array" where
  "S11_f64 a11 a12 a21 a22 =
     smul_f64 (Fin 0.5) (add_f64 (add_f64 (add_f64 (pow2_f64 (abs_c128 (Inr a11))) (pow2_f64 (abs_c128 (Inr a22))))
                         (pow2_f64 (abs_c128 (Inr a21)))) (pow2_f64 (abs_c128 (Inr a12))))"

definition S12_f64 :: "c128 list \<Rightarrow> c128 list \<Rightarrow> c128 list \<Rightarrow> c128 list \<Rightarrow> f64 array" where
  "S12_f64 a11 a12 a21 a22 =
     smul_f64 (Fin 0.5) (sub_f64 (add_f64 (sub_f64 (pow2_f64 (abs_c128 (Inr a11))) (pow2_f64 (abs_c128 (Inr a22))))
                         (pow2_f64 (abs_c128 (Inr a21)))) (pow2_f64 (abs_c128 (Inr a12))))"

definition S13_f64 :: "c128 list \<Rightarrow> c128 list \<Rightarrow> c128 list \<Rightarrow> c128 list \<Rightarrow> f64 array" where
  "S13_f64 a11 a12 a21 a22 =
     real_c128 (add_c128 (mul_c128 (Inr a11) (conjugate_c128 (Inr a12))) (mul_c128 (Inr a22) (conjugate_c128 (Inr a21))))"

definition S14_f64 :: "c128 list \<Rightarrow> c128 list \<Rightarrow> c128 list \<Rightarrow> c128 list \<Rightarrow> f64 array" where
  "S14_f64 a11 a12 a21 a22 =
     imag_c128 (sub_c128 (mul_c128 (Inr a11) (conjugate_c128 (Inr a12))) (mul_c128 (Inr a22) (conjugate_c128 (Inr a21))))"

definition S21_f64 :: "c128 list \<Rightarrow> c128 list \<Rightarrow> c128 list \<Rightarrow> c128 list \<Rightarrow> f64 array" where
  "S21_f64 a11 a12 a21 a22 =
     smul_f64 (Fin 0.5) (add_f64 (sub_f64 (sub_f64 (pow2_f64 (abs_c128 (Inr a11))) (pow2_f64 (abs_c128 (Inr a22))))
                         (pow2_f64 (abs_c128 (Inr a21)))) (pow2_f64 (abs_c128 (Inr a12))))"

definition S22_f64 :: "c128 list \<Rightarrow> c128 list \<Rightarrow> c128 list \<Rightarrow> c128 list \<Rightarrow> f64 array" where
  "S22_f64 a11 a12 a21 a22 =
     smul_f64 (Fin 0.5) (sub_f64 (sub_f64 (add_f64 (pow2_f64 (abs_c128 (Inr a11))) (pow2_f64 (abs_c128 (Inr a22))))
                         (pow2_f64 (abs_c128 (Inr a21)))) (pow2_f64 (abs_c128 (Inr a12))))"

definition S23_f64 :: "c128 list \<Rightarrow> c128 list \<Rightarrow> c128 list \<Rightarrow> c128 list \<Rightarrow> f64 array" where
  "S23_f64 a11 a12 a21 a22 =
     real_c128 (sub_c128 (mul_c128 (Inr a11) (conjugate_c128 (Inr a12))) (mul_c128 (Inr a22) (conjugate_c128 (Inr a21))))"

definition S24_f64 :: "c128 list \<Rightarrow> c128 list \<Rightarrow> c128 list \<Rightarrow> c128 list \<Rightarrow> f64 array" where
  "S24_f64 a11 a12 a21 a22 =
     imag_c128 (add_c128 (mul_c128 (Inr a11) (conjugate_c128 (Inr a12))) (mul_c128 (Inr a22) (conjugate_c128 (Inr a21))))"

definition S31_f64 :: "c128 list \<Rightarrow> c128 list \<Rightarrow> c128 list \<Rightarrow> c128 list \<Rightarrow> f64 array" where
  "S31_f64 a11 a12 a21 a22 =
     real_c128 (add_c128 (mul_c128 (Inr a11) (conjugate_c128 (Inr a21))) (mul_c128 (Inr a22) (conjugate_c128 (Inr a12))))"

definition S32_f64 :: "c128 list \<Rightarrow> c128 list \<Rightarrow> c128 list \<Rightarrow> c128 list \<Rightarrow> f64 array" where
  "S32_f64 a11 a12 a21 a22 =
     real_c128 (sub_c128 (mul_c128 (Inr a11) (conjugate_c128 (Inr a21))) (mul_c128 (Inr a22) (conjugate_c128 (Inr a12))))"

definition S33_f64 :: "c128 list \<Rightarrow> c128 list \<Rightarrow> c128 list \<Rightarrow> c128 list \<Rightarrow> f64 array" where
  "S33_f64 a11 a12 a21 a22 =
     real_c128 (add_c128 (mul_c128 (conjugate_c128 (Inr a11)) (Inr a22)) (mul_c128 (Inr a12) (conjugate_c128 (Inr a21))))"

definition S34_f64 :: "c128 list \<Rightarrow> c128 list \<Rightarrow> c128 list \<Rightarrow> c128 list \<Rightarrow> f64 array" where
  "S34_f64 a11 a12 a21 a22 =
     imag_c128 (add_c128 (mul_c128 (Inr a11) (conjugate_c128 (Inr a22))) (mul_c128 (Inr a21) (conjugate_c128 (Inr a12))))"

definition S41_f64 :: "c128 list \<Rightarrow> c128 list \<Rightarrow> c128 list \<Rightarrow> c128 list \<Rightarrow> f64 array" where
  "S41_f64 a11 a12 a21 a22 =
     imag_c128 (add_c128 (mul_c128 (conjugate_c128 (Inr a11)) (Inr a21)) (mul_c128 (conjugate_c128 (Inr a12)) (Inr a22)))"

definition S42_f64 :: "c128 list \<Rightarrow> c128 list \<Rightarrow> c128 list \<Rightarrow> c128 list \<Rightarrow> f64 array" where
  "S42_f64 a11 a12 a21 a22 =
     imag_c128 (sub_c128 (mul_c128 (conjugate_c128 (Inr a11)) (Inr a21)) (mul_c128 (conjugate_c128 (Inr a12)) (Inr a22)))"

definition S43_f64 :: "c128 list \<Rightarrow> c128 list \<Rightarrow> c128 list \<Rightarrow> c128 list \<Rightarrow> f64 array" where
  "S43_f64 a11 a12 a21 a22 =
     imag_c128 (sub_c128 (mul_c128 (Inr a22) (conjugate_c128 (Inr a11))) (mul_c128 (Inr a12) (conjugate_c128 (Inr a21))))"

definition S44_f64 :: "c128 list \<Rightarrow> c128 list \<Rightarrow> c128 list \<Rightarrow> c128 list \<Rightarrow> f64 array" where
  "S44_f64 a11 a12 a21 a22 =
     real_c128 (sub_c128 (mul_c128 (conjugate_c128 (Inr a11)) (Inr a22)) (mul_c128 (Inr a12) (conjugate_c128 (Inr a21))))"

section \<open>The sample directions\<close>

text \<open>
  \<^verbatim>\<open>theta = np.linspace(0, 2 * np.pi, 3601)\<close>
  \<^verbatim>\<open>points = np.vstack([np.cos(theta), np.sin(theta), 0. * theta])\<close>

  \<open>np.linspace(start, stop, num)\<close>, with its default \<open>endpoint=True\<close>, returns \<open>num\<close>
  samples \<open>i * step + start\<close> with \<open>step = (stop - start) / (num - 1)\<close>, and then stores
  \<open>stop\<close> itself in the last place when \<open>num > 1\<close>; for \<open>num = 1\<close> the only sample
  is \<open>start\<close>. \<open>points\<close> has shape \<open>(3, N)\<close> and is kept as the list of its columns.
\<close>

definition np_linspace :: "real \<Rightarrow> real \<Rightarrow> nat \<Rightarrow> real list" where
  "np_linspace start stop num =
     (let d = num - 1;
          delta = stop - start;
          y = map (\<lambda>i. if 0 < d then real i * (delta / real d) + start
                        else real i * delta + start) [0..<num]
      in if 1 < num then y[num - 1 := stop] else y)"

definition direction :: "real \<Rightarrow> real \<times> real \<times> real" where
  \<comment> \<open>one column of \<open>points\<close>\<close>
  "direction t = (cos t, sin t, 0 * t)"

section \<open>The notebook's variables\<close>

text \<open>
  The global names the cells read and write. \<open>bound_A22\<close>, \<open>bound_A12\<close>,
  \<open>bound_A11\<close> and \<open>bound_A21\<close> are the names \<open>A22\<close>, \<open>A12\<close>, \<open>A11\<close>, \<open>A21\<close>,
  each unbound (\<open>None\<close>) until a statement has assigned it.
  \<open>kExt\<close> is the float \<open>5.\<close> in the notebook; the cells use it only in the complex
  product \<open>-1j * kExt\<close>, so it is kept as a complex number.

  \<open>cell14\<close> is the cell \<open>In [14]\<close>, which assigns \<open>theta\<close> and \<open>points\<close> (its first
  line sets a tolerance of the boundary element library and is left out).
\<close>

record globals =
  kExt :: complex
  theta :: "real list"
  points :: "(real \<times> real \<times> real) list"
  ffp_z :: "vec3 list"
  ffp_y :: "vec3 list"
  bound_A22 :: "complex list option"
  bound_A12 :: "complex list option"
  bound_A11 :: "complex list option"
  bound_A21 :: "complex list option"

definition cell14 :: "globals \<Rightarrow> globals" where
  "cell14 g =
     (let g1 = g\<lparr>theta := np_linspace 0 (2 * pi) 3601\<rparr>
      in g1\<lparr>points := map direction (theta g1)\<rparr>)"

text \<open>
  A statement takes the state of the notebook to the state after it, together with the
  error it raised, if any. An assignment evaluates its right-hand side in the current
  state; if that raises, the state stays as it is, and otherwise the name is bound to
  the new array. None of the operators of the cell works in place, so every result is a
  new array. A cell runs its statements in order and stops at the first that raises:
  the names bound before the raise stay bound.
\<close>

type_synonym stmt = "globals \<Rightarrow> globals \<times> error option"

definition assign ::
  "(globals \<Rightarrow> complex array) \<Rightarrow> (complex list \<Rightarrow> globals \<Rightarrow> globals) \<Rightarrow> stmt" where
  "assign rhs store g = (case rhs g of Inl e \<Rightarrow> (g, Some e) | Inr v \<Rightarrow> (store v g, None))"

definition seq :: "stmt \<Rightarrow> stmt \<Rightarrow> stmt" where
  "seq s t g = (case s g of (g', Some e) \<Rightarrow> (g', Some e) | (g', None) \<Rightarrow> t g')"

text \<open>
  \<open>cell16\<close> is the cell \<open>In [16]\<close>, the four amplitude statements; each reads \<open>kExt\<close>,
  \<open>theta\<close> and one far field from the current state.
\<close>

definition stmt_A22 :: stmt where
  "stmt_A22 = assign (\<lambda>g. A22_expr (kExt g) (ffp_z g)) (\<lambda>v g. g\<lparr>bound_A22 := Some v\<rparr>)"

definition stmt_A12 :: stmt where
  "stmt_A12 = assign (\<lambda>g. A12_expr (kExt g) (theta g) (ffp_z g)) (\<lambda>v g. g\<lparr>bound_A12 := Some v\<rparr>)"

definition stmt_A11 :: stmt where
  "stmt_A11 = assign (\<lambda>g. A11_expr (kExt g) (theta g) (ffp_y g)) (\<lambda>v g. g\<lparr>bound_A11 := Some v\<rparr>)"

definition stmt_A21 :: stmt where
  "stmt_A21 = assign (\<lambda>g. A21_expr (kExt g) (ffp_y g)) (\<lambda>v g. g\<lparr>bound_A21 := Some v\<rparr>)"

definition cell16 :: stmt where
  "cell16 = seq stmt_A22 (seq stmt_A12 (seq stmt_A11 stmt_A21))"

section \<open>Evaluating array expressions\<close>

lemma ufunc_Inr [simp]: "ufunc f (Inr xs) = Inr (map f xs)"
  by (simp add: ufunc_def)

lemma ufunc_Inl [simp]: "ufunc f (Inl e) = Inl e"
  by (simp add: ufunc_def)

lemma ufunc2_Inl [simp]: "ufunc2 f (Inl e) b = Inl e"
  by (simp add: ufunc2_def)

lemma ufunc2_Inr_Inl [simp]: "ufunc2 f (Inr xs) (Inl e) = Inl e"
  by (simp add: ufunc2_def)

lemma ufunc2_Inr [simp]: "ufunc2 f (Inr xs) (Inr ys) = broadcast f xs ys"
  by (simp add: ufunc2_def)

lemma bind_Inr [simp]: "bind (Inr v) f = f v"
  by (simp add: bind_def)

lemma bind_Inl [simp]: "bind (Inl e) f = Inl e"
  by (simp add: bind_def)

lemma map2_tabulate:
  "map2 f (map g xs) (map h xs) = map (\<lambda>i. f (g i) (h i)) xs"
  by (induction xs) simp_all

lemma broadcast_tabulate [simp]:
  "broadcast f (map g [0..<n]) (map h [0..<n]) = Inr (map (\<lambda>i. f (g i) (h i)) [0..<n])"
  by (simp add: broadcast_def map2_tabulate)

lemma tabulate_nth: "length xs = n \<Longrightarrow> map (\<lambda>i. xs ! i) [0..<n] = xs"
  using map_nth [of xs] by auto

lemma A22_expr_tabulate:
  "A22_expr k (map fz [0..<n]) = Inr (map (\<lambda>i. - \<i> * k * vz (fz i)) [0..<n])"
  by (simp add: A22_expr_def smul_def row2_def)

lemma A21_expr_tabulate:
  "A21_expr k (map fy [0..<n]) = Inr (map (\<lambda>i. - \<i> * k * vz (fy i)) [0..<n])"
  by (simp add: A21_expr_def smul_def row2_def)

lemma A12_expr_tabulate:
  "A12_expr k (map th [0..<n]) (map fz [0..<n]) =
     Inr (map (\<lambda>i. - \<i> * k * (complex_of_real (- sin (th i)) * vx (fz i)
                               + complex_of_real (cos (th i)) * vy (fz i))) [0..<n])"
  by (simp add: A12_expr_def smul_def add_def mul_def promote_def neg_def np_sin_def
      np_cos_def row0_def row1_def)

lemma A11_expr_tabulate:
  "A11_expr k (map th [0..<n]) (map fy [0..<n]) =
     Inr (map (\<lambda>i. - \<i> * k * (complex_of_real (- sin (th i)) * vx (fy i)
                               + complex_of_real (cos (th i)) * vy (fy i))) [0..<n])"
  by (simp add: A11_expr_def smul_def add_def mul_def promote_def neg_def np_sin_def
      np_cos_def row0_def row1_def)

lemma amplitude_builder_tabulate:
  "amplitude_builder k (map th [0..<n]) (map fz [0..<n]) (map fy [0..<n]) =
     Inr \<lparr>A11 = map (\<lambda>i. - \<i> * k * (complex_of_real (- sin (th i)) * vx (fy i)
                               + complex_of_real (cos (th i)) * vy (fy i))) [0..<n],
          A12 = map (\<lambda>i. - \<i> * k * (complex_of_real (- sin (th i)) * vx (fz i)
                               + complex_of_real (cos (th i)) * vy (fz i))) [0..<n],
          A21 = map (\<lambda>i. - \<i> * k * vz (fy i)) [0..<n],
          A22 = map (\<lambda>i. - \<i> * k * vz (fz i)) [0..<n]\<rparr>"
  unfolding amplitude_builder_def A22_expr_tabulate A12_expr_tabulate A11_expr_tabulate
    A21_expr_tabulate
  by simp

lemma amplitude_builder_equal_lengths:
  assumes "length th = n" "length fz = n" "length fy = n"
  shows "amplitude_builder k th fz fy =
     Inr \<lparr>A11 = map (\<lambda>i. - \<i> * k * (complex_of_real (- sin (th ! i)) * vx (fy ! i)
                               + complex_of_real (cos (th ! i)) * vy (fy ! i))) [0..<n],
          A12 = map (\<lambda>i. - \<i> * k * (complex_of_real (- sin (th ! i)) * vx (fz ! i)
                               + complex_of_real (cos (th ! i)) * vy (fz ! i))) [0..<n],
          A21 = map (\<lambda>i. - \<i> * k * vz (fy ! i)) [0..<n],
          A22 = map (\<lambda>i. - \<i> * k * vz (fz ! i)) [0..<n]\<rparr>"
proof -
  have "amplitude_builder k th fz fy =
      amplitude_builder k (map (\<lambda>i. th ! i) [0..<n]) (map (\<lambda>i. fz ! i) [0..<n])
        (map (\<lambda>i. fy ! i) [0..<n])"
    using assms by (simp add: tabulate_nth)
  then show ?thesis
    by (simp only: amplitude_builder_tabulate)
qed

section \<open>Evaluating the phase cell\<close>

lemmas np_defs = smul_def add_def sub_def mul_def neg_def promote_def pow2_def np_abs_def
  np_sin_def np_cos_def np_real_def np_imag_def np_conjugate_def

lemma S11_expr_tabulate:
  "S11_expr (map g11 [0..<n]) (map g12 [0..<n]) (map g21 [0..<n]) (map g22 [0..<n]) =
     Inr (map (\<lambda>i. 0.5 * ((cmod (g11 i))\<^sup>2 + (cmod (g22 i))\<^sup>2 + (cmod (g21 i))\<^sup>2 + (cmod (g12 i))\<^sup>2)) [0..<n])"
  by (simp add: S11_expr_def np_defs)

lemma S12_expr_tabulate:
  "S12_expr (map g11 [0..<n]) (map g12 [0..<n]) (map g21 [0..<n]) (map g22 [0..<n]) =
     Inr (map (\<lambda>i. 0.5 * ((cmod (g11 i))\<^sup>2 - (cmod (g22 i))\<^sup>2 + (cmod (g21 i))\<^sup>2 - (cmod (g12 i))\<^sup>2)) [0..<n])"
  by (simp add: S12_expr_def np_defs)

lemma S13_expr_tabulate:
  "S13_expr (map g11 [0..<n]) (map g12 [0..<n]) (map g21 [0..<n]) (map g22 [0..<n]) =
     Inr (map (\<lambda>i. Re (g11 i * cnj (g12 i) + g22 i * cnj (g21 i))) [0..<n])"
  by (simp add: S13_expr_def np_defs)

lemma S14_expr_tabulate:
  "S14_expr (map g11 [0..<n]) (map g12 [0..<n]) (map g21 [0..<n]) (map g22 [0..<n]) =
     Inr (map (\<lambda>i. Im (g11 i * cnj (g12 i) - g22 i * cnj (g21 i))) [0..<n])"
  by (simp add: S14_expr_def np_defs)

lemma S21_expr_tabulate:
  "S21_expr (map g11 [0..<n]) (map g12 [0..<n]) (map g21 [0..<n]) (map g22 [0..<n]) =
     Inr (map (\<lambda>i. 0.5 * ((cmod (g11 i))\<^sup>2 - (cmod (g22 i))\<^sup>2 - (cmod (g21 i))\<^sup>2 + (cmod (g12 i))\<^sup>2)) [0..<n])"
  by (simp add: S21_expr_def np_defs)

lemma S22_expr_tabulate:
  "S22_expr (map g11 [0..<n]) (map g12 [0..<n]) (map g21 [0..<n]) (map g22 [0..<n]) =
     Inr (map (\<lambda>i. 0.5 * ((cmod (g11 i))\<^sup>2 + (cmod (g22 i))\<^sup>2 - (cmod (g21 i))\<^sup>2 - (cmod (g12 i))\<^sup>2)) [0..<n])"
  by (simp add: S22_expr_def np_defs)

lemma S23_expr_tabulate:
  "S23_expr (map g11 [0..<n]) (map g12 [0..<n]) (map g21 [0..<n]) (map g22 [0..<n]) =
     Inr (map (\<lambda>i. Re (g11 i * cnj (g12 i) - g22 i * cnj (g21 i))) [0..<n])"
  by (simp add: S23_expr_def np_defs)

lemma S24_expr_tabulate:
  "S24_expr (map g11 [0..<n]) (map g12 [0..<n]) (map g21 [0..<n]) (map g22 [0..<n]) =
     Inr (map (\<lambda>i. Im (g11 i * cnj (g12 i) + g22 i * cnj (g21 i))) [0..<n])"
  by (simp add: S24_expr_def np_defs)

lemma S31_expr_tabulate:
  "S31_expr (map g11 [0..<n]) (map g12 [0..<n]) (map g21 [0..<n]) (map g22 [0..<n]) =
     Inr (map (\<lambda>i. Re (g11 i * cnj (g21 i) + g22 i * cnj (g12 i))) [0..<n])"
  by (simp add: S31_expr_def np_defs)

lemma S32_expr_tabulate:
  "S32_expr (map g11 [0..<n]) (map g12 [0..<n]) (map g21 [0..<n]) (map g22 [0..<n]) =
     Inr (map (\<lambda>i. Re (g11 i * cnj (g21 i) - g22 i * cnj (g12 i))) [0..<n])"
  by (simp add: S32_expr_def np_defs)

lemma S33_expr_tabulate:
  "S33_expr (map g11 [0..<n]) (map g12 [0..<n]) (map g21 [0..<n]) (map g22 [0..<n]) =
     Inr (map (\<lambda>i. Re (cnj (g11 i) * g22 i + g12 i * cnj (g21 i))) [0..<n])"
  by (simp add: S33_expr_def np_defs)

lemma S34_expr_tabulate:
  "S34_expr (map g11 [0..<n]) (map g12 [0..<n]) (map g21 [0..<n]) (map g22 [0..<n]) =
     Inr (map (\<lambda>i. Im (g11 i * cnj (g22 i) + g21 i * cnj (g12 i))) [0..<n])"
  by (simp add: S34_expr_def np_defs)

lemma S41_expr_tabulate:
  "S41_expr (map g11 [0..<n]) (map g12 [0..<n]) (map g21 [0..<n]) (map g22 [0..<n]) =
     Inr (map (\<lambda>i. Im (cnj (g11 i) * g21 i + cnj (g12 i) * g22 i)) [0..<n])"
  by (simp add: S41_expr_def np_defs)

lemma S42_expr_tabulate:
  "S42_expr (map g11 [0..<n]) (map g12 [0..<n]) (map g21 [0..<n]) (map g22 [0..<n]) =
     Inr (map (\<lambda>i. Im (cnj (g11 i) * g21 i - cnj (g12 i) * g22 i)) [0..<n])"
  by (simp add: S42_expr_def np_defs)

lemma S43_expr_tabulate:
  "S43_expr (map g11 [0..<n]) (map g12 [0..<n]) (map g21 [0..<n]) (map g22 [0..<n]) =
     Inr (map (\<lambda>i. Im (g22 i * cnj (g11 i) - g12 i * cnj (g21 i))) [0..<n])"
  by (simp add: S43_expr_def np_defs)

lemma S44_expr_tabulate:
  "S44_expr (map g11 [0..<n]) (map g12 [0..<n]) (map g21 [0..<n]) (map g22 [0..<n]) =
     Inr (map (\<lambda>i. Re (cnj (g11 i) * g22 i - g12 i * cnj (g21 i))) [0..<n])"
  by (simp add: S44_expr_def np_defs)

lemma phase_builder_tabulate:
  "phase_builder (map g11 [0..<n]) (map g12 [0..<n]) (map g21 [0..<n]) (map g22 [0..<n]) =
     Inr \<lparr>S11 = map (\<lambda>i. 0.5 * ((cmod (g11 i))\<^sup>2 + (cmod (g22 i))\<^sup>2 + (cmod (g21 i))\<^sup>2 + (cmod (g12 i))\<^sup>2)) [0..<n],
          S12 = map (\<lambda>i. 0.5 * ((cmod (g11 i))\<^sup>2 - (cmod (g22 i))\<^sup>2 + (cmod (g21 i))\<^sup>2 - (cmod (g12 i))\<^sup>2)) [0..<n],
          S13 = map (\<lambda>i. Re (g11 i * cnj (g12 i) + g22 i * cnj (g21 i))) [0..<n],
          S14 = map (\<lambda>i. Im (g11 i * cnj (g12 i) - g22 i * cnj (g21 i))) [0..<n],
          S21 = map (\<lambda>i. 0.5 * ((cmod (g11 i))\<^sup>2 - (cmod (g22 i))\<^sup>2 - (cmod (g21 i))\<^sup>2 + (cmod (g12 i))\<^sup>2)) [0..<n],
          S22 = map (\<lambda>i. 0.5 * ((cmod (g11 i))\<^sup>2 + (cmod (g22 i))\<^sup>2 - (cmod (g21 i))\<^sup>2 - (cmod (g12 i))\<^sup>2)) [0..<n],
          S23 = map (\<lambda>i. Re (g11 i * cnj (g12 i) - g22 i * cnj (g21 i))) [0..<n],
          S24 = map (\<lambda>i. Im (g11 i * cnj (g12 i) + g22 i * cnj (g21 i))) [0..<n],
          S31 = map (\<lambda>i. Re (g11 i * cnj (g21 i) + g22 i * cnj (g12 i))) [0..<n],
          S32 = map (\<lambda>i. Re (g11 i * cnj (g21 i) - g22 i * cnj (g12 i))) [0..<n],
          S33 = map (\<lambda>i. Re (cnj (g11 i) * g22 i + g12 i * cnj (g21 i))) [0..<n],
          S34 = map (\<lambda>i. Im (g11 i * cnj (g22 i) + g21 i * cnj (g12 i))) [0..<n],
          S41 = map (\<lambda>i. Im (cnj (g11 i) * g21 i + cnj (g12 i) * g22 i)) [0..<n],
          S42 = map (\<lambda>i. Im (cnj (g11 i) * g21 i - cnj (g12 i) * g22 i)) [0..<n],
          S43 = map (\<lambda>i. Im (g22 i * cnj (g11 i) - g12 i * cnj (g21 i))) [0..<n],
          S44 = map (\<lambda>i. Re (cnj (g11 i) * g22 i - g12 i * cnj (g21 i))) [0..<n]\<rparr>"
  unfolding phase_builder_def
    S11_expr_tabulate S12_expr_tabulate S13_expr_tabulate S14_expr_tabulate S21_expr_tabulate S22_expr_tabulate S23_expr_tabulate S24_expr_tabulate
    S31_expr_tabulate S32_expr_tabulate S33_expr_tabulate S34_expr_tabulate S41_expr_tabulate S42_expr_tabulate S43_expr_tabulate S44_expr_tabulate
  by (simp only: bind_Inr)

lemma phase_builder_equal_lengths:
  assumes "length a11 = n" "length a12 = n" "length a21 = n" "length a22 = n"
  shows "phase_builder a11 a12 a21 a22 =
     Inr \<lparr>S11 = map (\<lambda>i. 0.5 * ((cmod (a11 ! i))\<^sup>2 + (cmod (a22 ! i))\<^sup>2 + (cmod (a21 ! i))\<^sup>2 + (cmod (a12 ! i))\<^sup>2)) [0..<n],
          S12 = map (\<lambda>i. 0.5 * ((cmod (a11 ! i))\<^sup>2 - (cmod (a22 ! i))\<^sup>2 + (cmod (a21 ! i))\<^sup>2 - (cmod (a12 ! i))\<^sup>2)) [0..<n],
          S13 = map (\<lambda>i. Re (a11 ! i * cnj (a12 ! i) + a22 ! i * cnj (a21 ! i))) [0..<n],
          S14 = map (\<lambda>i. Im (a11 ! i * cnj (a12 ! i) - a22 ! i * cnj (a21 ! i))) [0..<n],
          S21 = map (\<lambda>i. 0.5 * ((cmod (a11 ! i))\<^sup>2 - (cmod (a22 ! i))\<^sup>2 - (cmod (a21 ! i))\<^sup>2 + (cmod (a12 ! i))\<^sup>2)) [0..<n],
          S22 = map (\<lambda>i. 0.5 * ((cmod (a11 ! i))\<^sup>2 + (cmod (a22 ! i))\<^sup>2 - (cmod (a21 ! i))\<^sup>2 - (cmod (a12 ! i))\<^sup>2)) [0..<n],
          S23 = map (\<lambda>i. Re (a11 ! i * cnj (a12 ! i) - a22 ! i * cnj (a21 ! i))) [0..<n],
          S24 = map (\<lambda>i. Im (a11 ! i * cnj (a12 ! i) + a22 ! i * cnj (a21 ! i))) [0..<n],
          S31 = map (\<lambda>i. Re (a11 ! i * cnj (a21 ! i) + a22 ! i * cnj (a12 ! i))) [0..<n],
          S32 = map (\<lambda>i. Re (a11 ! i * cnj (a21 ! i) - a22 ! i * cnj (a12 ! i))) [0..<n],
          S33 = map (\<lambda>i. Re (cnj (a11 ! i) * a22 ! i + a12 ! i * cnj (a21 ! i))) [0..<n],
          S34 = map (\<lambda>i. Im (a11 ! i * cnj (a22 ! i) + a21 ! i * cnj (a12 ! i))) [0..<n],
          S41 = map (\<lambda>i. Im (cnj (a11 ! i) * a21 ! i + cnj (a12 ! i) * a22 ! i)) [0..<n],
          S42 = map (\<lambda>i. Im (cnj (a11 ! i) * a21 ! i - cnj (a12 ! i) * a22 ! i)) [0..<n],
          S43 = map (\<lambda>i. Im (a22 ! i * cnj (a11 ! i) - a12 ! i * cnj (a21 ! i))) [0..<n],
          S44 = map (\<lambda>i. Re (cnj (a11 ! i) * a22 ! i - a12 ! i * cnj (a21 ! i))) [0..<n]\<rparr>"
proof -
  have "phase_builder a11 a12 a21 a22 =
      phase_builder (map (\<lambda>i. a11 ! i) [0..<n]) (map (\<lambda>i. a12 ! i) [0..<n])
        (map (\<lambda>i. a21 ! i) [0..<n]) (map (\<lambda>i. a22 ! i) [0..<n])"
    using assms by (simp add: tabulate_nth)
  then show ?thesis
    by (simp only: phase_builder_tabulate)
qed


lemma phase_builder_pointwise:
  assumes "length a11 = N" and "length a12 = N" and "length a21 = N" and "length a22 = N"
  shows "\<exists>P. phase_builder a11 a12 a21 a22 = Inr P
    \<and> length (S11 P) = N \<and> length (S12 P) = N \<and> length (S13 P) = N \<and> length (S14 P) = N
    \<and> length (S21 P) = N \<and> length (S22 P) = N \<and> length (S23 P) = N \<and> length (S24 P) = N
    \<and> length (S31 P) = N \<and> length (S32 P) = N \<and> length (S33 P) = N \<and> length (S34 P) = N
    \<and> length (S41 P) = N \<and> length (S42 P) = N \<and> length (S43 P) = N \<and> length (S44 P) = N
    \<and> (\<forall>i<N.
         S11 P ! i = 0.5 * ((cmod (a11 ! i))\<^sup>2 + (cmod (a22 ! i))\<^sup>2 + (cmod (a21 ! i))\<^sup>2 + (cmod (a12 ! i))\<^sup>2)
       \<and> S12 P ! i = 0.5 * ((cmod (a11 ! i))\<^sup>2 - (cmod (a22 ! i))\<^sup>2 + (cmod (a21 ! i))\<^sup>2 - (cmod (a12 ! i))\<^sup>2)
       \<and> S13 P ! i = Re (a11 ! i * cnj (a12 ! i) + a22 ! i * cnj (a21 ! i))
       \<and> S14 P ! i = Im (a11 ! i * cnj (a12 ! i) - a22 ! i * cnj (a21 ! i))
       \<and> S21 P ! i = 0.5 * ((cmod (a11 ! i))\<^sup>2 - (cmod (a22 ! i))\<^sup>2 - (cmod (a21 ! i))\<^sup>2 + (cmod (a12 ! i))\<^sup>2)
       \<and> S22 P ! i = 0.5 * ((cmod (a11 ! i))\<^sup>2 + (cmod (a22 ! i))\<^sup>2 - (cmod (a21 ! i))\<^sup>2 - (cmod (a12 ! i))\<^sup>2)
       \<and> S23 P ! i = Re (a11 ! i * cnj (a12 ! i) - a22 ! i * cnj (a21 ! i))
       \<and> S24 P ! i = Im (a11 ! i * cnj (a12 ! i) + a22 ! i * cnj (a21 ! i))
       \<and> S31 P ! i = Re (a11 ! i * cnj (a21 ! i) + a22 ! i * cnj (a12 ! i))
       \<and> S32 P ! i = Re (a11 ! i * cnj (a21 ! i) - a22 ! i * cnj (a12 ! i))
       \<and> S33 P ! i = Re (cnj (a11 ! i) * a22 ! i + a12 ! i * cnj (a21 ! i))
       \<and> S34 P ! i = Im (a11 ! i * cnj (a22 ! i) + a21 ! i * cnj (a12 ! i))
       \<and> S41 P ! i = Im (cnj (a11 ! i) * a21 ! i + cnj (a12 ! i) * a22 ! i)
       \<and> S42 P ! i = Im (cnj (a11 ! i) * a21 ! i - cnj (a12 ! i) * a22 ! i)
       \<and> S43 P ! i = Im (a22 ! i * cnj (a11 ! i) - a12 ! i * cnj (a21 ! i))
       \<and> S44 P ! i = Re (cnj (a11 ! i) * a22 ! i - a12 ! i * cnj (a21 ! i)))"
  by (simp add: phase_builder_equal_lengths [OF assms])

lemma fry_kattawar_pointwise:
  fixes a b c d :: complex
  shows "(0.5 * ((cmod a)\<^sup>2 + (cmod d)\<^sup>2 + (cmod c)\<^sup>2 + (cmod b)\<^sup>2))\<^sup>2
   + (0.5 * ((cmod a)\<^sup>2 - (cmod d)\<^sup>2 + (cmod c)\<^sup>2 - (cmod b)\<^sup>2))\<^sup>2
   + (Re (a * cnj b + d * cnj c))\<^sup>2
   + (Im (a * cnj b - d * cnj c))\<^sup>2
   + (0.5 * ((cmod a)\<^sup>2 - (cmod d)\<^sup>2 - (cmod c)\<^sup>2 + (cmod b)\<^sup>2))\<^sup>2
   + (0.5 * ((cmod a)\<^sup>2 + (cmod d)\<^sup>2 - (cmod c)\<^sup>2 - (cmod b)\<^sup>2))\<^sup>2
   + (Re (a * cnj b - d * cnj c))\<^sup>2
   + (Im (a * cnj b + d * cnj c))\<^sup>2
   + (Re (a * cnj c + d * cnj b))\<^sup>2
   + (Re (a * cnj c - d * cnj b))\<^sup>2
   + (Re (cnj a * d + b * cnj c))\<^sup>2
   + (Im (a * cnj d + c * cnj b))\<^sup>2
   + (Im (cnj a * c + cnj b * d))\<^sup>2
   + (Im (cnj a * c - cnj b * d))\<^sup>2
   + (Im (d * cnj a - b * cnj c))\<^sup>2
   + (Re (cnj a * d - b * cnj c))\<^sup>2
   = 4 * (0.5 * ((cmod a)\<^sup>2 + (cmod d)\<^sup>2 + (cmod c)\<^sup>2 + (cmod b)\<^sup>2))\<^sup>2"
  unfolding cmod_power2 by (simp add: power2_eq_square algebra_simps)

section \<open>The sample angles and their directions\<close>

lemma np_linspace_length [simp]: "length (np_linspace start stop num) = num"
  by (simp add: np_linspace_def Let_def)

lemma np_linspace_nth:
  assumes "2 \<le> N" and "i < N"
  shows "np_linspace 0 (2 * pi) N ! i = real i * 2 * pi / real (N - 1)"
proof -
  define d where "d = real (N - 1)"
  have d: "0 < d"
    using assms by (simp add: d_def)
  have raw: "np_linspace 0 (2 * pi) N ! i = (if i = N - 1 then 2 * pi else real i * (2 * pi / d))"
    using assms unfolding d_def by (simp add: np_linspace_def Let_def)
  have "np_linspace 0 (2 * pi) N ! i = real i * 2 * pi / d"
  proof (cases "i = N - 1")
    case True
    then have "real i = d"
      by (simp only: d_def)
    with raw True d show ?thesis
      by simp
  next
    case False
    with raw show ?thesis
      by simp
  qed
  then show ?thesis
    by (simp only: d_def)
qed






section \<open>When the cells raise\<close>

lemma error_cases: "(r :: error + 'a) = Inl ValueError \<or> (\<exists>v. r = Inr v)"
  by (cases r) (auto intro: error.exhaust)

lemma A22_expr_returns: "A22_expr k fz = Inr (map (\<lambda>v. - \<i> * k * vz v) fz)"
  by (simp add: A22_expr_def smul_def row2_def)

lemma A21_expr_returns: "A21_expr k fy = Inr (map (\<lambda>v. - \<i> * k * vz v) fy)"
  by (simp add: A21_expr_def smul_def row2_def)

lemma A12_expr_raises:
  "A12_expr k th fz = Inl ValueError \<longleftrightarrow> mismatch th fz"
  by (auto simp add: A12_expr_def np_defs row0_def row1_def broadcast_def mismatch_def)

lemma A11_expr_raises:
  "A11_expr k th fy = Inl ValueError \<longleftrightarrow> mismatch th fy"
  by (auto simp add: A11_expr_def np_defs row0_def row1_def broadcast_def mismatch_def)

lemma amplitude_builder_Inr:
  "amplitude_builder k th fz fy = Inr A \<longleftrightarrow>
     A22_expr k fz = Inr (A22 A) \<and> A12_expr k th fz = Inr (A12 A)
     \<and> A11_expr k th fy = Inr (A11 A) \<and> A21_expr k fy = Inr (A21 A)"
  by (cases A) (auto simp add: amplitude_builder_def bind_def split: sum.splits)

lemma amplitude_builder_raises:
  "amplitude_builder k th fz fy = Inl ValueError \<longleftrightarrow>
     A12_expr k th fz = Inl ValueError \<or> A11_expr k th fy = Inl ValueError"
  using error_cases [of "A12_expr k th fz"] error_cases [of "A11_expr k th fy"]
  by (auto simp add: amplitude_builder_def A22_expr_returns A21_expr_returns)

lemma S11_expr_raises:
  "S11_expr a11 a12 a21 a22 = Inl ValueError \<longleftrightarrow>
     mismatch a11 a12 \<or> mismatch a11 a21 \<or> mismatch a11 a22
     \<or> mismatch a12 a21 \<or> mismatch a12 a22 \<or> mismatch a21 a22"
  by (auto simp add: S11_expr_def np_defs broadcast_def mismatch_def)

lemma S12_expr_raises:
  "S12_expr a11 a12 a21 a22 = Inl ValueError \<longleftrightarrow>
     mismatch a11 a12 \<or> mismatch a11 a21 \<or> mismatch a11 a22
     \<or> mismatch a12 a21 \<or> mismatch a12 a22 \<or> mismatch a21 a22"
  by (auto simp add: S12_expr_def np_defs broadcast_def mismatch_def)

lemma S13_expr_raises:
  "S13_expr a11 a12 a21 a22 = Inl ValueError \<longleftrightarrow>
     mismatch a11 a12 \<or> mismatch a11 a21 \<or> mismatch a11 a22
     \<or> mismatch a12 a21 \<or> mismatch a12 a22 \<or> mismatch a21 a22"
  by (auto simp add: S13_expr_def np_defs broadcast_def mismatch_def)

lemma S14_expr_raises:
  "S14_expr a11 a12 a21 a22 = Inl ValueError \<longleftrightarrow>
     mismatch a11 a12 \<or> mismatch a11 a21 \<or> mismatch a11 a22
     \<or> mismatch a12 a21 \<or> mismatch a12 a22 \<or> mismatch a21 a22"
  by (auto simp add: S14_expr_def np_defs broadcast_def mismatch_def)

lemma S21_expr_raises:
  "S21_expr a11 a12 a21 a22 = Inl ValueError \<longleftrightarrow>
     mismatch a11 a12 \<or> mismatch a11 a21 \<or> mismatch a11 a22
     \<or> mismatch a12 a21 \<or> mismatch a12 a22 \<or> mismatch a21 a22"
  by (auto simp add: S21_expr_def np_defs broadcast_def mismatch_def)

lemma S22_expr_raises:
  "S22_expr a11 a12 a21 a22 = Inl ValueError \<longleftrightarrow>
     mismatch a11 a12 \<or> mismatch a11 a21 \<or> mismatch a11 a22
     \<or> mismatch a12 a21 \<or> mismatch a12 a22 \<or> mismatch a21 a22"
  by (auto simp add: S22_expr_def np_defs broadcast_def mismatch_def)

lemma S23_expr_raises:
  "S23_expr a11 a12 a21 a22 = Inl ValueError \<longleftrightarrow>
     mismatch a11 a12 \<or> mismatch a11 a21 \<or> mismatch a11 a22
     \<or> mismatch a12 a21 \<or> mismatch a12 a22 \<or> mismatch a21 a22"
  by (auto simp add: S23_expr_def np_defs broadcast_def mismatch_def)

lemma S24_expr_raises:
  "S24_expr a11 a12 a21 a22 = Inl ValueError \<longleftrightarrow>
     mismatch a11 a12 \<or> mismatch a11 a21 \<or> mismatch a11 a22
     \<or> mismatch a12 a21 \<or> mismatch a12 a22 \<or> mismatch a21 a22"
  by (auto simp add: S24_expr_def np_defs broadcast_def mismatch_def)

lemma S31_expr_raises:
  "S31_expr a11 a12 a21 a22 = Inl ValueError \<longleftrightarrow>
     mismatch a11 a12 \<or> mismatch a11 a21 \<or> mismatch a11 a22
     \<or> mismatch a12 a21 \<or> mismatch a12 a22 \<or> mismatch a21 a22"
  by (auto simp add: S31_expr_def np_defs broadcast_def mismatch_def)

lemma S32_expr_raises:
  "S32_expr a11 a12 a21 a22 = Inl ValueError \<longleftrightarrow>
     mismatch a11 a12 \<or> mismatch a11 a21 \<or> mismatch a11 a22
     \<or> mismatch a12 a21 \<or> mismatch a12 a22 \<or> mismatch a21 a22"
  by (auto simp add: S32_expr_def np_defs broadcast_def mismatch_def)

lemma S33_expr_raises:
  "S33_expr a11 a12 a21 a22 = Inl ValueError \<longleftrightarrow>
     mismatch a11 a12 \<or> mismatch a11 a21 \<or> mismatch a11 a22
     \<or> mismatch a12 a21 \<or> mismatch a12 a22 \<or> mismatch a21 a22"
  by (auto simp add: S33_expr_def np_defs broadcast_def mismatch_def)

lemma S34_expr_raises:
  "S34_expr a11 a12 a21 a22 = Inl ValueError \<longleftrightarrow>
     mismatch a11 a12 \<or> mismatch a11 a21 \<or> mismatch a11 a22
     \<or> mismatch a12 a21 \<or> mismatch a12 a22 \<or> mismatch a21 a22"
  by (auto simp add: S34_expr_def np_defs broadcast_def mismatch_def)

lemma S41_expr_raises:
  "S41_expr a11 a12 a21 a22 = Inl ValueError \<longleftrightarrow>
     mismatch a11 a12 \<or> mismatch a11 a21 \<or> mismatch a11 a22
     \<or> mismatch a12 a21 \<or> mismatch a12 a22 \<or> mismatch a21 a22"
  by (auto simp add: S41_expr_def np_defs broadcast_def mismatch_def)

lemma S42_expr_raises:
  "S42_expr a11 a12 a21 a22 = Inl ValueError \<longleftrightarrow>
     mismatch a11 a12 \<or> mismatch a11 a21 \<or> mismatch a11 a22
     \<or> mismatch a12 a21 \<or> mismatch a12 a22 \<or> mismatch a21 a22"
  by (auto simp add: S42_expr_def np_defs broadcast_def mismatch_def)

lemma S43_expr_raises:
  "S43_expr a11 a12 a21 a22 = Inl ValueError \<longleftrightarrow>
     mismatch a11 a12 \<or> mismatch a11 a21 \<or> mismatch a11 a22
     \<or> mismatch a12 a21 \<or> mismatch a12 a22 \<or> mismatch a21 a22"
  by (auto simp add: S43_expr_def np_defs broadcast_def mismatch_def)

lemma S44_expr_raises:
  "S44_expr a11 a12 a21 a22 = Inl ValueError \<longleftrightarrow>
     mismatch a11 a12 \<or> mismatch a11 a21 \<or> mismatch a11 a22
     \<or> mismatch a12 a21 \<or> mismatch a12 a22 \<or> mismatch a21 a22"
  by (auto simp add: S44_expr_def np_defs broadcast_def mismatch_def)

lemma phase_builder_raises:
  "phase_builder a11 a12 a21 a22 = Inl ValueError \<longleftrightarrow>
     mismatch a11 a12 \<or> mismatch a11 a21 \<or> mismatch a11 a22
     \<or> mismatch a12 a21 \<or> mismatch a12 a22 \<or> mismatch a21 a22"
  (is "?run = Inl ValueError \<longleftrightarrow> ?bad")
proof (cases ?bad)
  case True
  then have "S11_expr a11 a12 a21 a22 = Inl ValueError"
    by (simp only: S11_expr_raises)
  then have "?run = Inl ValueError"
    by (simp add: phase_builder_def)
  with True show ?thesis
    by simp
next
  case False
  obtain s11 s12 s13 s14 s21 s22 s23 s24 s31 s32 s33 s34 s41 s42 s43 s44 where
    "S11_expr a11 a12 a21 a22 = Inr s11"
    "S12_expr a11 a12 a21 a22 = Inr s12"
    "S13_expr a11 a12 a21 a22 = Inr s13"
    "S14_expr a11 a12 a21 a22 = Inr s14"
    "S21_expr a11 a12 a21 a22 = Inr s21"
    "S22_expr a11 a12 a21 a22 = Inr s22"
    "S23_expr a11 a12 a21 a22 = Inr s23"
    "S24_expr a11 a12 a21 a22 = Inr s24"
    "S31_expr a11 a12 a21 a22 = Inr s31"
    "S32_expr a11 a12 a21 a22 = Inr s32"
    "S33_expr a11 a12 a21 a22 = Inr s33"
    "S34_expr a11 a12 a21 a22 = Inr s34"
    "S41_expr a11 a12 a21 a22 = Inr s41"
    "S42_expr a11 a12 a21 a22 = Inr s42"
    "S43_expr a11 a12 a21 a22 = Inr s43"
    "S44_expr a11 a12 a21 a22 = Inr s44"
    using False
      error_cases [of "S11_expr a11 a12 a21 a22"]
      error_cases [of "S12_expr a11 a12 a21 a22"]
      error_cases [of "S13_expr a11 a12 a21 a22"]
      error_cases [of "S14_expr a11 a12 a21 a22"]
      error_cases [of "S21_expr a11 a12 a21 a22"]
      error_cases [of "S22_expr a11 a12 a21 a22"]
      error_cases [of "S23_expr a11 a12 a21 a22"]
      error_cases [of "S24_expr a11 a12 a21 a22"]
      error_cases [of "S31_expr a11 a12 a21 a22"]
      error_cases [of "S32_expr a11 a12 a21 a22"]
      error_cases [of "S33_expr a11 a12 a21 a22"]
      error_cases [of "S34_expr a11 a12 a21 a22"]
      error_cases [of "S41_expr a11 a12 a21 a22"]
      error_cases [of "S42_expr a11 a12 a21 a22"]
      error_cases [of "S43_expr a11 a12 a21 a22"]
      error_cases [of "S44_expr a11 a12 a21 a22"]
    unfolding S11_expr_raises S12_expr_raises S13_expr_raises S14_expr_raises S21_expr_raises S22_expr_raises S23_expr_raises S24_expr_raises
      S31_expr_raises S32_expr_raises S33_expr_raises S34_expr_raises S41_expr_raises S42_expr_raises S43_expr_raises S44_expr_raises
    by blast
  then have "?run \<noteq> Inl ValueError"
    by (simp add: phase_builder_def)
  with False show ?thesis
    by simp
qed

section \<open>Running the amplitude cell\<close>

lemma stmt_A22_run:
  "stmt_A22 g = (g\<lparr>bound_A22 := Some (map (\<lambda>v. - \<i> * kExt g * vz v) (ffp_z g))\<rparr>, None)"
  by (simp add: stmt_A22_def assign_def A22_expr_returns)

lemma stmt_A21_run:
  "stmt_A21 g = (g\<lparr>bound_A21 := Some (map (\<lambda>v. - \<i> * kExt g * vz v) (ffp_y g))\<rparr>, None)"
  by (simp add: stmt_A21_def assign_def A21_expr_returns)

lemma stmt_A12_run:
  "stmt_A12 g = (case A12_expr (kExt g) (theta g) (ffp_z g) of
      Inl e \<Rightarrow> (g, Some e) | Inr v \<Rightarrow> (g\<lparr>bound_A12 := Some v\<rparr>, None))"
  by (simp add: stmt_A12_def assign_def)

lemma stmt_A11_run:
  "stmt_A11 g = (case A11_expr (kExt g) (theta g) (ffp_y g) of
      Inl e \<Rightarrow> (g, Some e) | Inr v \<Rightarrow> (g\<lparr>bound_A11 := Some v\<rparr>, None))"
  by (simp add: stmt_A11_def assign_def)

lemmas cell16_run = cell16_def seq_def stmt_A22_run stmt_A12_run stmt_A11_run stmt_A21_run

lemma cell16_returns:
  assumes "amplitude_builder (kExt g) (theta g) (ffp_z g) (ffp_y g) = Inr A"
  shows "cell16 g = (g\<lparr>bound_A22 := Some (A22 A), bound_A12 := Some (A12 A),
                        bound_A11 := Some (A11 A), bound_A21 := Some (A21 A)\<rparr>, None)"
  using assms unfolding amplitude_builder_Inr
  by (simp add: cell16_run A22_expr_returns A21_expr_returns)

lemma cell16_raises:
  assumes "amplitude_builder (kExt g) (theta g) (ffp_z g) (ffp_y g) = Inl e"
  shows "snd (cell16 g) = Some e"
  using assms
  by (auto simp add: cell16_run amplitude_builder_def bind_def A22_expr_returns A21_expr_returns
      split: sum.splits)

section \<open>The constant far fields\<close>

lemma cell14_theta: "theta (cell14 g) = np_linspace 0 (2 * pi) 3601"
  by (simp add: cell14_def Let_def)

lemma synthetic_amplitude:
  assumes "length th = n"
  shows "amplitude_builder k th (replicate n (Vec3 0 0 1)) (replicate n (Vec3 0 1 0)) =
     Inr \<lparr>A11 = map (\<lambda>i. - \<i> * k * complex_of_real (cos (th ! i))) [0..<n],
          A12 = map (\<lambda>i. 0) [0..<n],
          A21 = map (\<lambda>i. 0) [0..<n],
          A22 = map (\<lambda>i. - \<i> * k) [0..<n]\<rparr>"
proof -
  have "length (replicate n (Vec3 0 0 1)) = n" "length (replicate n (Vec3 0 1 0)) = n"
    by simp_all
  from amplitude_builder_equal_lengths [OF assms this, of k] show ?thesis
    by simp
qed

lemma synthetic_phase_S11:
  "\<exists>P. phase_builder (map (\<lambda>i. - \<i> * 5 * complex_of_real (cos (th ! i))) [0..<n])
          (map (\<lambda>i. 0) [0..<n]) (map (\<lambda>i. 0) [0..<n]) (map (\<lambda>i. - \<i> * 5) [0..<n]) = Inr P
     \<and> S11 P = map (\<lambda>i. 0.5 * (25 * (cos (th ! i))\<^sup>2 + 25)) [0..<n]"
  by (simp add: phase_builder_tabulate norm_mult power_mult_distrib)

section \<open>Rounding to float64\<close>

lemma rhe_int [simp]: "rhe (of_int n) = n"
  by (simp add: rhe_def)

lemma rhe_0 [simp]: "rhe 0 = 0"
  using rhe_int [of 0] by simp

lemma rhe_range: "\<lfloor>r\<rfloor> \<le> rhe r \<and> rhe r \<le> \<lfloor>r\<rfloor> + 1"
  by (simp add: rhe_def Let_def)

lemma rhe_mono:
  assumes "r \<le> s"
  shows "rhe r \<le> rhe s"
proof -
  have fl: "\<lfloor>r\<rfloor> \<le> \<lfloor>s\<rfloor>"
    using assms by (rule floor_mono)
  show ?thesis
  proof (cases "\<lfloor>r\<rfloor> = \<lfloor>s\<rfloor>")
    case True
    then have "r - of_int \<lfloor>r\<rfloor> \<le> s - of_int \<lfloor>s\<rfloor>"
      using assms by simp
    with True show ?thesis
      by (auto simp add: rhe_def Let_def)
  next
    case False
    with fl have "\<lfloor>r\<rfloor> + 1 \<le> \<lfloor>s\<rfloor>"
      by simp
    with rhe_range [of r] rhe_range [of s] show ?thesis
      by linarith
  qed
qed

lemma rhe_neg: "rhe (- r) = - rhe r"
proof (cases "r \<in> \<int>")
  case True
  then obtain n where "r = of_int n"
    by (auto elim: Ints_cases)
  then have "rhe (- r) = rhe (of_int (- n))"
    by simp
  also have "\<dots> = - n"
    by (rule rhe_int)
  finally show ?thesis
    using \<open>r = of_int n\<close> by simp
next
  case False
  then have ne: "r \<noteq> of_int \<lfloor>r\<rfloor>"
    by (metis Ints_of_int)
  then have fl: "\<lfloor>- r\<rfloor> = - \<lfloor>r\<rfloor> - 1"
    by (simp add: floor_minus ceiling_altdef)
  have "r - of_int \<lfloor>r\<rfloor> \<noteq> 0"
    using ne by simp
  then show ?thesis
    unfolding rhe_def Let_def fl
    by (auto simp add: algebra_simps)
qed


lemma expo_ge: "- 1022 \<le> expo x"
  by (simp add: expo_def)

lemma expo_neg [simp]: "expo (- x) = expo x"
  by (simp add: expo_def)

lemma ulp_neg [simp]: "ulp (- x) = ulp x"
  by (simp add: ulp_def)

lemma ulp_pos [simp]: "0 < ulp x"
  by (simp add: ulp_def)

lemma ulp_nonneg [simp]: "0 \<le> ulp x"
  by (simp add: ulp_def)

lemma expo_normal:
  assumes "2 powr (- 1022) \<le> x"
  shows "expo x = \<lfloor>log 2 x\<rfloor>"
    and "2 powr real_of_int (expo x) \<le> x"
    and "x < 2 powr (real_of_int (expo x) + 1)"
proof -
  have pos: "0 < x"
    using assms by (rule less_le_trans [rotated]) simp
  have "log 2 (2 powr (- 1022)) \<le> log 2 x"
    using assms pos by (subst log_le_cancel_iff) simp_all
  then have "- 1022 \<le> log 2 x"
    by simp
  then have "- 1022 \<le> \<lfloor>log 2 x\<rfloor>"
    by (simp add: le_floor_iff)
  then show e: "expo x = \<lfloor>log 2 x\<rfloor>"
    using pos by (simp add: expo_def)
  have "2 powr real_of_int \<lfloor>log 2 x\<rfloor> \<le> 2 powr (log 2 x)"
    by (rule powr_mono) simp_all
  then show "2 powr real_of_int (expo x) \<le> x"
    using pos by (simp add: e)
  have "2 powr (log 2 x) < 2 powr (real_of_int \<lfloor>log 2 x\<rfloor> + 1)"
    by (rule powr_less_mono) simp_all
  then show "x < 2 powr (real_of_int (expo x) + 1)"
    using pos by (simp add: e)
qed

lemma expo_subnormal:
  assumes "0 < x" and "x < 2 powr (- 1022)"
  shows "expo x = - 1022"
proof -
  have "log 2 x < log 2 (2 powr (- 1022))"
    using assms by (subst log_less_cancel_iff) simp_all
  then have "log 2 x < - 1022"
    by simp
  then have "\<lfloor>log 2 x\<rfloor> < - 1022"
    by (simp add: floor_less_iff)
  then show ?thesis
    using assms by (simp add: expo_def)
qed

lemma expo_mono:
  assumes "0 < x" and "x \<le> y"
  shows "expo x \<le> expo y"
proof -
  have "log 2 x \<le> log 2 y"
    using assms by (subst log_le_cancel_iff) simp_all
  then have "\<lfloor>log 2 x\<rfloor> \<le> \<lfloor>log 2 y\<rfloor>"
    by (rule floor_mono)
  then show ?thesis
    using assms by (simp add: expo_def)
qed

lemma rv_neg: "rv (- x) = - rv x"
  by (simp add: rv_def rhe_neg)

lemma rv_nonneg:
  assumes "0 \<le> x"
  shows "0 \<le> rv x"
proof -
  have "0 \<le> x / ulp x"
    using assms by simp
  then have "rhe 0 \<le> rhe (x / ulp x)"
    by (rule rhe_mono)
  then show ?thesis
    by (simp add: rv_def)
qed

lemma rv_normal:
  assumes "2 powr (- 1022) \<le> x"
  shows "2 powr real_of_int (expo x) \<le> rv x"
    and "rv x \<le> 2 powr (real_of_int (expo x) + 1)"
proof -
  define e where "e = real_of_int (expo x)"
  define u where "u = ulp x"
  have u: "u = 2 powr (e - 52)" "0 < u"
    by (simp_all add: u_def e_def ulp_def)
  have lo: "2 powr e \<le> x" and hi: "x < 2 powr (e + 1)"
    using expo_normal [OF assms] by (simp_all add: e_def)
  have "2 powr e / u = 2 powr 52" "2 powr (e + 1) / u = 2 powr 53"
    by (simp_all add: u powr_diff [symmetric] del: powr_numeral)
  then have q: "2 powr e / u = of_int (2 ^ 52)" "2 powr (e + 1) / u = of_int (2 ^ 53)"
    by simp_all
  have "2 powr e / u \<le> x / u" "x / u \<le> 2 powr (e + 1) / u"
    using lo hi u by (simp_all add: divide_right_mono)
  then have "rhe (of_int (2 ^ 52)) \<le> rhe (x / u)" "rhe (x / u) \<le> rhe (of_int (2 ^ 53))"
    unfolding q by (auto intro: rhe_mono)
  then have m: "2 ^ 52 \<le> rhe (x / u)" "rhe (x / u) \<le> 2 ^ 53"
    by (simp_all only: rhe_int)
  have "real_of_int (2 ^ 52) \<le> real_of_int (rhe (x / u))"
    using m(1) by (simp only: of_int_le_iff)
  then have "of_int (2 ^ 52) * u \<le> of_int (rhe (x / u)) * u"
    using u(2) by (intro mult_right_mono) simp_all
  moreover have "of_int (2 ^ 52) * u = 2 powr e"
    using q(1) u(2) by (simp add: field_simps)
  ultimately have "2 powr e \<le> of_int (rhe (x / u)) * u"
    by (simp only:)
  then show "2 powr real_of_int (expo x) \<le> rv x"
    unfolding rv_def e_def u_def .
  have "real_of_int (rhe (x / u)) \<le> real_of_int (2 ^ 53)"
    using m(2) by (simp only: of_int_le_iff)
  then have "of_int (rhe (x / u)) * u \<le> of_int (2 ^ 53) * u"
    using u(2) by (intro mult_right_mono) simp_all
  moreover have "of_int (2 ^ 53) * u = 2 powr (e + 1)"
    using q(2) u(2) by (simp add: field_simps)
  ultimately have "of_int (rhe (x / u)) * u \<le> 2 powr (e + 1)"
    by (simp only:)
  then show "rv x \<le> 2 powr (real_of_int (expo x) + 1)"
    unfolding rv_def e_def u_def .
qed


lemma rv_subnormal:
  assumes "0 < x" and "x < 2 powr (- 1022)"
  shows "rv x \<le> 2 powr (- 1022)"
proof -
  define u where "u = ulp x"
  have u: "u = 2 powr (- 1074)" "0 < u"
    using expo_subnormal [OF assms] by (simp_all add: u_def ulp_def)
  have "2 powr (- 1022) / u = 2 powr 52"
    unfolding u(1) by (simp add: powr_diff [symmetric] del: powr_numeral powr_neg_numeral)
  then have q: "2 powr (- 1022) / u = of_int (2 ^ 52)"
    by simp
  have "x / u \<le> 2 powr (- 1022) / u"
    using assms u(2) by (simp add: divide_right_mono del: powr_neg_numeral)
  then have "rhe (x / u) \<le> rhe (of_int (2 ^ 52))"
    unfolding q by (rule rhe_mono)
  then have "rhe (x / u) \<le> 2 ^ 52"
    by (simp only: rhe_int)
  then have "real_of_int (rhe (x / u)) \<le> real_of_int (2 ^ 52)"
    by (simp only: of_int_le_iff)
  then have "of_int (rhe (x / u)) * u \<le> of_int (2 ^ 52) * u"
    using u(2) by (intro mult_right_mono) simp_all
  moreover have "of_int (2 ^ 52) * u = 2 powr (- 1022)"
    using q u(2) by (simp add: field_simps del: powr_neg_numeral)
  ultimately have "of_int (rhe (x / u)) * u \<le> 2 powr (- 1022)"
    by (simp only:)
  then show ?thesis
    unfolding rv_def u_def .
qed

lemma rv_upper:
  assumes "0 < x"
  shows "rv x \<le> 2 powr (real_of_int (expo x) + 1)"
proof (cases "2 powr (- 1022) \<le> x")
  case True
  then show ?thesis
    by (rule rv_normal(2))
next
  case False
  then have sub: "x < 2 powr (- 1022)"
    by simp
  have "rv x \<le> 2 powr (- 1022)"
    using assms sub by (rule rv_subnormal)
  also have "2 powr (- 1022) \<le> 2 powr (real_of_int (- 1022) + 1)"
    by (intro powr_mono) simp_all
  finally show ?thesis
    by (simp only: expo_subnormal [OF assms sub])
qed

lemma rv_mono_pos:
  assumes "0 < x" and "x \<le> y"
  shows "rv x \<le> rv y"
proof (cases "expo x = expo y")
  case True
  then have u: "ulp y = ulp x"
    by (simp add: ulp_def)
  have "x / ulp x \<le> y / ulp x"
    using assms by (simp add: divide_right_mono)
  then have "rhe (x / ulp x) \<le> rhe (y / ulp x)"
    by (rule rhe_mono)
  then have "real_of_int (rhe (x / ulp x)) \<le> real_of_int (rhe (y / ulp x))"
    by (simp only: of_int_le_iff)
  then have "of_int (rhe (x / ulp x)) * ulp x \<le> of_int (rhe (y / ulp x)) * ulp x"
    by (intro mult_right_mono) simp_all
  then show ?thesis
    by (simp only: rv_def u)
next
  case False
  with expo_mono [OF assms] have lt: "expo x + 1 \<le> expo y"
    by simp
  have normal: "2 powr (- 1022) \<le> y"
  proof (rule ccontr)
    assume "\<not> 2 powr (- 1022) \<le> y"
    then have "y < 2 powr (- 1022)"
      by simp
    moreover have "0 < y"
      using assms by simp
    ultimately have "expo y = - 1022"
      by (rule expo_subnormal [rotated])
    with lt expo_ge [of x] show False
      by simp
  qed
  have "rv x \<le> 2 powr (real_of_int (expo x) + 1)"
    using assms(1) by (rule rv_upper)
  also have "\<dots> \<le> 2 powr real_of_int (expo y)"
    using lt by (intro powr_mono) simp_all
  also have "\<dots> \<le> rv y"
    using normal by (rule rv_normal(1))
  finally show ?thesis .
qed

lemma rv_0 [simp]: "rv 0 = 0"
  by (simp add: rv_def)

lemma rnd_0 [simp]: "rnd 0 = Fin 0"
  by (simp add: rnd_def)

lemma rnd_neg: "rnd (- x) = fneg (rnd x)"
  by (cases "x = 0") (auto simp add: rnd_def rv_neg)

lemma rnd_nonneg:
  assumes "0 \<le> x"
  shows "rnd x = PInf \<or> (\<exists>r. 0 \<le> r \<and> rnd x = Fin r)"
  using rv_nonneg [OF assms] assms by (cases "x = 0") (auto simp add: rnd_def)

lemma rnd_mono_nonneg:
  assumes "0 \<le> x" and "x \<le> y"
  shows "fle (rnd x) (rnd y)"
proof (cases "x = 0")
  case True
  with rnd_nonneg [of y] assms show ?thesis
    by auto
next
  case False
  with assms have pos: "0 < x" "0 < y"
    by simp_all
  from rv_mono_pos [OF pos(1) assms(2)] rv_nonneg [of x] rv_nonneg [of y] pos
  show ?thesis
    by (auto simp add: rnd_def)
qed

lemma fabs_fneg [simp]: "fabs (fneg a) = fabs a"
  by (cases a) simp_all

lemma fabs_rnd: "fabs (rnd x) = rnd \<bar>x\<bar>"
proof (cases "0 \<le> x")
  case True
  with rnd_nonneg [of x] show ?thesis
    by auto
next
  case False
  then have "0 \<le> - x"
    by simp
  from rnd_nonneg [OF this] have "fabs (rnd (- x)) = rnd (- x)"
    by auto
  with False show ?thesis
    by (simp add: rnd_neg)
qed

lemma rnd_bounded:
  assumes "\<bar>x\<bar> \<le> y"
  shows "fle (fabs (rnd x)) (rnd y)"
  unfolding fabs_rnd using assms by (intro rnd_mono_nonneg) simp_all

lemma rnd_not_NaN [simp]: "rnd x \<noteq> NaN"
  by (simp add: rnd_def)

lemma bound_base:
  assumes "0 \<le> p" and "0 \<le> q"
  shows "fle (fabs (fsub (Fin p) (Fin q))) (fadd (Fin p) (Fin q))"
  using assms by (simp add: fsub_def rnd_bounded)

lemma bound_step:
  assumes "fle (fabs t) s" and "0 \<le> c"
  shows "fle (fabs (fadd t (Fin c))) (fadd s (Fin c))"
    and "fle (fabs (fsub t (Fin c))) (fadd s (Fin c))"
proof -
  show "fle (fabs (fadd t (Fin c))) (fadd s (Fin c))"
  proof (cases s)
    case (Fin s')
    with assms obtain t' where t: "t = Fin t'" and "\<bar>t'\<bar> \<le> s'"
      by (cases t) simp_all
    then have "\<bar>t' + c\<bar> \<le> s' + c"
      using assms(2) by simp
    then show ?thesis
      unfolding t Fin by (simp add: rnd_bounded)
  next
    case PInf
    with assms have "t \<noteq> NaN"
      by (cases t) simp_all
    then have "fadd t (Fin c) \<noteq> NaN"
      by (cases t) simp_all
    then show ?thesis
      unfolding PInf by (cases "fadd t (Fin c)") simp_all
  next
    case NInf
    with assms show ?thesis
      by (cases t) simp_all
  next
    case NaN
    with assms show ?thesis
      by (cases t) simp_all
  qed
  show "fle (fabs (fsub t (Fin c))) (fadd s (Fin c))"
  proof (cases s)
    case (Fin s')
    with assms obtain t' where t: "t = Fin t'" and "\<bar>t'\<bar> \<le> s'"
      by (cases t) simp_all
    then have "\<bar>t' + - c\<bar> \<le> s' + c"
      using assms(2) by simp
    then show ?thesis
      unfolding t Fin by (simp add: fsub_def rnd_bounded)
  next
    case PInf
    with assms have "t \<noteq> NaN"
      by (cases t) simp_all
    then have "fsub t (Fin c) \<noteq> NaN"
      by (cases t) (simp_all add: fsub_def)
    then show ?thesis
      unfolding PInf by (cases "fsub t (Fin c)") simp_all
  next
    case NInf
    with assms show ?thesis
      by (cases t) simp_all
  next
    case NaN
    with assms show ?thesis
      by (cases t) simp_all
  qed
qed

lemma bound_half:
  assumes "fle (fabs t) s"
  shows "fle (fabs (fmul (Fin 0.5) t)) (fmul (Fin 0.5) s)"
proof (cases s)
  case (Fin s')
  with assms obtain t' where t: "t = Fin t'" and "\<bar>t'\<bar> \<le> s'"
    by (cases t) simp_all
  then have "\<bar>0.5 * t'\<bar> \<le> 0.5 * s'"
    by simp
  then show ?thesis
    unfolding t Fin by (simp only: fmul.simps rnd_bounded)
next
  case PInf
  with assms have "t \<noteq> NaN"
    by (cases t) simp_all
  then have "fmul (Fin 0.5) t \<noteq> NaN"
    by (cases t) simp_all
  then show ?thesis
    unfolding PInf by (cases "fmul (Fin 0.5) t") simp_all
next
  case NInf
  with assms show ?thesis
    by (cases t) simp_all
next
  case NaN
  with assms show ?thesis
    by (cases t) simp_all
qed

lemma square_finite_nonneg:
  assumes "fmul x x = Fin p"
  shows "0 \<le> p"
proof (cases x)
  case (Fin x')
  with assms rnd_nonneg [of "x' * x'"] show ?thesis
    by auto
qed (use assms in simp_all)


lemma expo_eval:
  assumes "2 powr real_of_int e \<le> \<bar>x\<bar>" and "\<bar>x\<bar> < 2 powr (real_of_int e + 1)"
    and "- 1022 \<le> e"
  shows "expo x = e"
proof -
  have pos: "0 < \<bar>x\<bar>"
    using assms(1) by (rule less_le_trans [rotated]) simp
  have "\<lfloor>log 2 \<bar>x\<bar>\<rfloor> = e"
    using assms(1,2) pos by (subst floor_log_eq_powr_iff) simp_all
  with assms(3) show ?thesis
    by (simp add: expo_def)
qed

lemma rhe_numeral [simp]: "rhe (numeral n) = numeral n"
  using rhe_int [of "numeral n"] by simp

lemma rnd_eval:
  assumes "2 powr real_of_int e \<le> \<bar>x\<bar>" and "\<bar>x\<bar> < 2 powr (real_of_int e + 1)"
    and "- 1022 \<le> e"
    and "u = 2 powr real_of_int (e - 52)"
    and "rhe (x / u) = m"
    and "y = real_of_int m * u"
  shows "rnd x = (if 2 ^ 1024 \<le> \<bar>y\<bar> then (if 0 < x then PInf else NInf) else Fin y)"
  using assms(4,5,6) by (simp add: rnd_def rv_def ulp_def expo_eval [OF assms(1,2,3)])

lemma rnd_power_of_two:
  assumes "- 1022 \<le> e"
  shows "rnd (2 powr real_of_int e) =
    (if 1024 \<le> e then PInf else Fin (2 powr real_of_int e))"
proof -
  define x where "x = 2 powr real_of_int e"
  define u where "u = 2 powr real_of_int (e - 52)"
  have x: "0 < x" "\<bar>x\<bar> = x"
    by (simp_all add: x_def)
  have lo: "2 powr real_of_int e \<le> \<bar>x\<bar>"
    by (simp add: x_def)
  have "2 powr real_of_int e < 2 powr (real_of_int e + 1)"
    by (rule powr_less_mono) simp_all
  then have hi: "\<bar>x\<bar> < 2 powr (real_of_int e + 1)"
    by (simp only: x(2)) (simp only: x_def)
  have "x / u = 2 powr 52"
    by (simp add: x_def u_def powr_diff [symmetric] del: powr_numeral)
  then have q: "x / u = of_int (2 ^ 52)"
    by simp
  have m: "rhe (x / u) = 2 ^ 52"
    unfolding q by (rule rhe_int)
  have y: "x = real_of_int (2 ^ 52) * u"
    using q by (simp add: u_def field_simps)
  have p: "(2::real) ^ 1024 = 2 powr real_of_int 1024"
    by simp
  have "2 powr real_of_int 1024 \<le> 2 powr real_of_int e \<longleftrightarrow> 1024 \<le> e"
    by (subst powr_le_cancel_iff) simp_all
  then have big: "2 ^ 1024 \<le> \<bar>x\<bar> \<longleftrightarrow> 1024 \<le> e"
    unfolding x(2) p by (simp only: x_def)
  from rnd_eval [OF lo hi assms u_def m y] x(1) show ?thesis
    unfolding big by (simp add: x_def)
qed

lemma rnd_one: "rnd 1 = Fin 1"
  using rnd_eval [of 0 1 "1 / 2 ^ 52" "2 ^ 52" 1]
  by (simp add: powr_neg_numeral)

lemma rnd_2_700: "rnd (2 ^ 700) = Fin (2 ^ 700)"
  using rnd_power_of_two [of 700] by simp

lemma rnd_2_1400: "rnd (2 ^ 1400) = PInf"
  using rnd_power_of_two [of 1400] by simp

lemma rnd_fk_1: "rnd (134217729 / 134217728) = Fin (134217729 / 134217728)"
proof -
  have lo: "2 powr real_of_int (0) \<le> \<bar>134217729 / 134217728 :: real\<bar>"
    by (simp add: powr_neg_numeral)
  have hi: "\<bar>134217729 / 134217728 :: real\<bar> < 2 powr (real_of_int (0) + 1)"
    by (simp add: powr_neg_numeral)
  have ex: "- 1022 \<le> (0 :: int)"
    by simp
  have u: "(1 / 2 ^ 52 :: real) = 2 powr real_of_int (0 - 52)"
    by (simp add: powr_neg_numeral)
  have m: "rhe ((134217729 / 134217728) / (1 / 2 ^ 52)) = 4503599660924928"
    by (simp add: rhe_def Let_def)
  have y: "(134217729 / 134217728 :: real) = real_of_int (4503599660924928) * (1 / 2 ^ 52)"
    by simp
  have fin: "\<not> 2 ^ 1024 \<le> \<bar>134217729 / 134217728 :: real\<bar>"
    by simp
  from rnd_eval [OF lo hi ex u m y] fin show ?thesis
    by (simp only: if_False)
qed

lemma rnd_fk_2: "rnd (18014398777917441 / 18014398509481984) = Fin (67108865 / 67108864)"
proof -
  have lo: "2 powr real_of_int (0) \<le> \<bar>18014398777917441 / 18014398509481984 :: real\<bar>"
    by (simp add: powr_neg_numeral)
  have hi: "\<bar>18014398777917441 / 18014398509481984 :: real\<bar> < 2 powr (real_of_int (0) + 1)"
    by (simp add: powr_neg_numeral)
  have ex: "- 1022 \<le> (0 :: int)"
    by simp
  have u: "(1 / 2 ^ 52 :: real) = 2 powr real_of_int (0 - 52)"
    by (simp add: powr_neg_numeral)
  have m: "rhe ((18014398777917441 / 18014398509481984) / (1 / 2 ^ 52)) = 4503599694479360"
    by (simp add: rhe_def Let_def)
  have y: "(67108865 / 67108864 :: real) = real_of_int (4503599694479360) * (1 / 2 ^ 52)"
    by simp
  have fin: "\<not> 2 ^ 1024 \<le> \<bar>67108865 / 67108864 :: real\<bar>"
    by simp
  from rnd_eval [OF lo hi ex u m y] fin show ?thesis
    by (simp only: if_False)
qed

lemma rnd_fk_3: "rnd (67108867 / 67108864) = Fin (67108867 / 67108864)"
proof -
  have lo: "2 powr real_of_int (0) \<le> \<bar>67108867 / 67108864 :: real\<bar>"
    by (simp add: powr_neg_numeral)
  have hi: "\<bar>67108867 / 67108864 :: real\<bar> < 2 powr (real_of_int (0) + 1)"
    by (simp add: powr_neg_numeral)
  have ex: "- 1022 \<le> (0 :: int)"
    by simp
  have u: "(1 / 2 ^ 52 :: real) = 2 powr real_of_int (0 - 52)"
    by (simp add: powr_neg_numeral)
  have m: "rhe ((67108867 / 67108864) / (1 / 2 ^ 52)) = 4503599828697088"
    by (simp add: rhe_def Let_def)
  have y: "(67108867 / 67108864 :: real) = real_of_int (4503599828697088) * (1 / 2 ^ 52)"
    by simp
  have fin: "\<not> 2 ^ 1024 \<le> \<bar>67108867 / 67108864 :: real\<bar>"
    by simp
  from rnd_eval [OF lo hi ex u m y] fin show ?thesis
    by (simp only: if_False)
qed

lemma rnd_fk_4: "rnd (4503600030023689 / 4503599627370496) = Fin (4503600030023689 / 4503599627370496)"
proof -
  have lo: "2 powr real_of_int (0) \<le> \<bar>4503600030023689 / 4503599627370496 :: real\<bar>"
    by (simp add: powr_neg_numeral)
  have hi: "\<bar>4503600030023689 / 4503599627370496 :: real\<bar> < 2 powr (real_of_int (0) + 1)"
    by (simp add: powr_neg_numeral)
  have ex: "- 1022 \<le> (0 :: int)"
    by simp
  have u: "(1 / 2 ^ 52 :: real) = 2 powr real_of_int (0 - 52)"
    by (simp add: powr_neg_numeral)
  have m: "rhe ((4503600030023689 / 4503599627370496) / (1 / 2 ^ 52)) = 4503600030023689"
    by (simp add: rhe_def Let_def)
  have y: "(4503600030023689 / 4503599627370496 :: real) = real_of_int (4503600030023689) * (1 / 2 ^ 52)"
    by simp
  have fin: "\<not> 2 ^ 1024 \<le> \<bar>4503600030023689 / 4503599627370496 :: real\<bar>"
    by simp
  from rnd_eval [OF lo hi ex u m y] fin show ?thesis
    by (simp only: if_False)
qed

lemma rnd_fk_5: "rnd (9007199724503049 / 4503599627370496) = Fin (1125899965562881 / 562949953421312)"
proof -
  have lo: "2 powr real_of_int (1) \<le> \<bar>9007199724503049 / 4503599627370496 :: real\<bar>"
    by (simp add: powr_neg_numeral)
  have hi: "\<bar>9007199724503049 / 4503599627370496 :: real\<bar> < 2 powr (real_of_int (1) + 1)"
    by (simp add: powr_neg_numeral)
  have ex: "- 1022 \<le> (1 :: int)"
    by simp
  have u: "(1 / 2 ^ 51 :: real) = 2 powr real_of_int (1 - 52)"
    by (simp add: powr_neg_numeral)
  have m: "rhe ((9007199724503049 / 4503599627370496) / (1 / 2 ^ 51)) = 4503599862251524"
    by (simp add: rhe_def Let_def)
  have y: "(1125899965562881 / 562949953421312 :: real) = real_of_int (4503599862251524) * (1 / 2 ^ 51)"
    by simp
  have fin: "\<not> 2 ^ 1024 \<le> \<bar>1125899965562881 / 562949953421312 :: real\<bar>"
    by simp
  from rnd_eval [OF lo hi ex u m y] fin show ?thesis
    by (simp only: if_False)
qed

lemma rnd_fk_6: "rnd (1125899965562881 / 562949953421312) = Fin (1125899965562881 / 562949953421312)"
proof -
  have lo: "2 powr real_of_int (1) \<le> \<bar>1125899965562881 / 562949953421312 :: real\<bar>"
    by (simp add: powr_neg_numeral)
  have hi: "\<bar>1125899965562881 / 562949953421312 :: real\<bar> < 2 powr (real_of_int (1) + 1)"
    by (simp add: powr_neg_numeral)
  have ex: "- 1022 \<le> (1 :: int)"
    by simp
  have u: "(1 / 2 ^ 51 :: real) = 2 powr real_of_int (1 - 52)"
    by (simp add: powr_neg_numeral)
  have m: "rhe ((1125899965562881 / 562949953421312) / (1 / 2 ^ 51)) = 4503599862251524"
    by (simp add: rhe_def Let_def)
  have y: "(1125899965562881 / 562949953421312 :: real) = real_of_int (4503599862251524) * (1 / 2 ^ 51)"
    by simp
  have fin: "\<not> 2 ^ 1024 \<le> \<bar>1125899965562881 / 562949953421312 :: real\<bar>"
    by simp
  from rnd_eval [OF lo hi ex u m y] fin show ?thesis
    by (simp only: if_False)
qed

lemma rnd_fk_7: "rnd (1125899965562881 / 1125899906842624) = Fin (1125899965562881 / 1125899906842624)"
proof -
  have lo: "2 powr real_of_int (0) \<le> \<bar>1125899965562881 / 1125899906842624 :: real\<bar>"
    by (simp add: powr_neg_numeral)
  have hi: "\<bar>1125899965562881 / 1125899906842624 :: real\<bar> < 2 powr (real_of_int (0) + 1)"
    by (simp add: powr_neg_numeral)
  have ex: "- 1022 \<le> (0 :: int)"
    by simp
  have u: "(1 / 2 ^ 52 :: real) = 2 powr real_of_int (0 - 52)"
    by (simp add: powr_neg_numeral)
  have m: "rhe ((1125899965562881 / 1125899906842624) / (1 / 2 ^ 52)) = 4503599862251524"
    by (simp add: rhe_def Let_def)
  have y: "(1125899965562881 / 1125899906842624 :: real) = real_of_int (4503599862251524) * (1 / 2 ^ 52)"
    by simp
  have fin: "\<not> 2 ^ 1024 \<le> \<bar>1125899965562881 / 1125899906842624 :: real\<bar>"
    by simp
  from rnd_eval [OF lo hi ex u m y] fin show ?thesis
    by (simp only: if_False)
qed

lemma rnd_fk_8: "rnd (- (335544329 / 4503599627370496)) = Fin (- (335544329 / 4503599627370496))"
proof -
  have lo: "2 powr real_of_int (- 24) \<le> \<bar>- (335544329 / 4503599627370496) :: real\<bar>"
    by (simp add: powr_neg_numeral)
  have hi: "\<bar>- (335544329 / 4503599627370496) :: real\<bar> < 2 powr (real_of_int (- 24) + 1)"
    by (simp add: powr_neg_numeral)
  have ex: "- 1022 \<le> (- 24 :: int)"
    by simp
  have u: "(1 / 2 ^ 76 :: real) = 2 powr real_of_int (- 24 - 52)"
    by (simp add: powr_neg_numeral)
  have m: "rhe ((- (335544329 / 4503599627370496)) / (1 / 2 ^ 76)) = - 5629499685208064"
    by (simp add: rhe_def Let_def)
  have y: "(- (335544329 / 4503599627370496) :: real) = real_of_int (- 5629499685208064) * (1 / 2 ^ 76)"
    by simp
  have fin: "\<not> 2 ^ 1024 \<le> \<bar>- (335544329 / 4503599627370496) :: real\<bar>"
    by simp
  from rnd_eval [OF lo hi ex u m y] fin show ?thesis
    by (simp only: if_False)
qed

lemma rnd_fk_9: "rnd (- (335544329 / 9007199254740992)) = Fin (- (335544329 / 9007199254740992))"
proof -
  have lo: "2 powr real_of_int (- 25) \<le> \<bar>- (335544329 / 9007199254740992) :: real\<bar>"
    by (simp add: powr_neg_numeral)
  have hi: "\<bar>- (335544329 / 9007199254740992) :: real\<bar> < 2 powr (real_of_int (- 25) + 1)"
    by (simp add: powr_neg_numeral)
  have ex: "- 1022 \<le> (- 25 :: int)"
    by simp
  have u: "(1 / 2 ^ 77 :: real) = 2 powr real_of_int (- 25 - 52)"
    by (simp add: powr_neg_numeral)
  have m: "rhe ((- (335544329 / 9007199254740992)) / (1 / 2 ^ 77)) = - 5629499685208064"
    by (simp add: rhe_def Let_def)
  have y: "(- (335544329 / 9007199254740992) :: real) = real_of_int (- 5629499685208064) * (1 / 2 ^ 77)"
    by simp
  have fin: "\<not> 2 ^ 1024 \<le> \<bar>- (335544329 / 9007199254740992) :: real\<bar>"
    by simp
  from rnd_eval [OF lo hi ex u m y] fin show ?thesis
    by (simp only: if_False)
qed

lemma rnd_fk_10: "rnd (9007199724503043 / 9007199254740992) = Fin (2251799931125761 / 2251799813685248)"
proof -
  have lo: "2 powr real_of_int (0) \<le> \<bar>9007199724503043 / 9007199254740992 :: real\<bar>"
    by (simp add: powr_neg_numeral)
  have hi: "\<bar>9007199724503043 / 9007199254740992 :: real\<bar> < 2 powr (real_of_int (0) + 1)"
    by (simp add: powr_neg_numeral)
  have ex: "- 1022 \<le> (0 :: int)"
    by simp
  have u: "(1 / 2 ^ 52 :: real) = 2 powr real_of_int (0 - 52)"
    by (simp add: powr_neg_numeral)
  have m: "rhe ((9007199724503043 / 9007199254740992) / (1 / 2 ^ 52)) = 4503599862251522"
    by (simp add: rhe_def Let_def)
  have y: "(2251799931125761 / 2251799813685248 :: real) = real_of_int (4503599862251522) * (1 / 2 ^ 52)"
    by simp
  have fin: "\<not> 2 ^ 1024 \<le> \<bar>2251799931125761 / 2251799813685248 :: real\<bar>"
    by simp
  from rnd_eval [OF lo hi ex u m y] fin show ?thesis
    by (simp only: if_False)
qed

lemma rnd_fk_11: "rnd (2251799931125761 / 2251799813685248) = Fin (2251799931125761 / 2251799813685248)"
proof -
  have lo: "2 powr real_of_int (0) \<le> \<bar>2251799931125761 / 2251799813685248 :: real\<bar>"
    by (simp add: powr_neg_numeral)
  have hi: "\<bar>2251799931125761 / 2251799813685248 :: real\<bar> < 2 powr (real_of_int (0) + 1)"
    by (simp add: powr_neg_numeral)
  have ex: "- 1022 \<le> (0 :: int)"
    by simp
  have u: "(1 / 2 ^ 52 :: real) = 2 powr real_of_int (0 - 52)"
    by (simp add: powr_neg_numeral)
  have m: "rhe ((2251799931125761 / 2251799813685248) / (1 / 2 ^ 52)) = 4503599862251522"
    by (simp add: rhe_def Let_def)
  have y: "(2251799931125761 / 2251799813685248 :: real) = real_of_int (4503599862251522) * (1 / 2 ^ 52)"
    by simp
  have fin: "\<not> 2 ^ 1024 \<le> \<bar>2251799931125761 / 2251799813685248 :: real\<bar>"
    by simp
  from rnd_eval [OF lo hi ex u m y] fin show ?thesis
    by (simp only: if_False)
qed

section \<open>Evaluating the phase cell in float64\<close>

lemmas f64_defs = add_f64_def sub_f64_def smul_f64_def pow2_f64_def abs_c128_def add_c128_def
  sub_c128_def mul_c128_def conjugate_c128_def real_c128_def imag_c128_def

lemma S11_f64_tabulate:
  "S11_f64 (map g11 [0..<n]) (map g12 [0..<n]) (map g21 [0..<n]) (map g22 [0..<n]) =
     Inr (map (\<lambda>i. fmul (Fin 0.5) (fadd (fadd (fadd (fmul (c_abs (g11 i)) (c_abs (g11 i)))
            (fmul (c_abs (g22 i)) (c_abs (g22 i)))) (fmul (c_abs (g21 i)) (c_abs (g21 i))))
            (fmul (c_abs (g12 i)) (c_abs (g12 i))))) [0..<n])"
  by (simp add: S11_f64_def f64_defs)

lemma S12_f64_tabulate:
  "S12_f64 (map g11 [0..<n]) (map g12 [0..<n]) (map g21 [0..<n]) (map g22 [0..<n]) =
     Inr (map (\<lambda>i. fmul (Fin 0.5) (fsub (fadd (fsub (fmul (c_abs (g11 i)) (c_abs (g11 i)))
            (fmul (c_abs (g22 i)) (c_abs (g22 i)))) (fmul (c_abs (g21 i)) (c_abs (g21 i))))
            (fmul (c_abs (g12 i)) (c_abs (g12 i))))) [0..<n])"
  by (simp add: S12_f64_def f64_defs)

lemma S21_f64_tabulate:
  "S21_f64 (map g11 [0..<n]) (map g12 [0..<n]) (map g21 [0..<n]) (map g22 [0..<n]) =
     Inr (map (\<lambda>i. fmul (Fin 0.5) (fadd (fsub (fsub (fmul (c_abs (g11 i)) (c_abs (g11 i)))
            (fmul (c_abs (g22 i)) (c_abs (g22 i)))) (fmul (c_abs (g21 i)) (c_abs (g21 i))))
            (fmul (c_abs (g12 i)) (c_abs (g12 i))))) [0..<n])"
  by (simp add: S21_f64_def f64_defs)

lemma S_f64_equal_lengths:
  assumes "length a11 = n" "length a12 = n" "length a21 = n" "length a22 = n"
  shows "S11_f64 a11 a12 a21 a22 =
     Inr (map (\<lambda>i. fmul (Fin 0.5) (fadd (fadd (fadd (fmul (c_abs (a11 ! i)) (c_abs (a11 ! i)))
            (fmul (c_abs (a22 ! i)) (c_abs (a22 ! i)))) (fmul (c_abs (a21 ! i)) (c_abs (a21 ! i))))
            (fmul (c_abs (a12 ! i)) (c_abs (a12 ! i))))) [0..<n])"
    and "S12_f64 a11 a12 a21 a22 =
     Inr (map (\<lambda>i. fmul (Fin 0.5) (fsub (fadd (fsub (fmul (c_abs (a11 ! i)) (c_abs (a11 ! i)))
            (fmul (c_abs (a22 ! i)) (c_abs (a22 ! i)))) (fmul (c_abs (a21 ! i)) (c_abs (a21 ! i))))
            (fmul (c_abs (a12 ! i)) (c_abs (a12 ! i))))) [0..<n])"
    and "S21_f64 a11 a12 a21 a22 =
     Inr (map (\<lambda>i. fmul (Fin 0.5) (fadd (fsub (fsub (fmul (c_abs (a11 ! i)) (c_abs (a11 ! i)))
            (fmul (c_abs (a22 ! i)) (c_abs (a22 ! i)))) (fmul (c_abs (a21 ! i)) (c_abs (a21 ! i))))
            (fmul (c_abs (a12 ! i)) (c_abs (a12 ! i))))) [0..<n])"
proof -
  have tab: "map (\<lambda>i. a11 ! i) [0..<n] = a11" "map (\<lambda>i. a12 ! i) [0..<n] = a12"
    "map (\<lambda>i. a21 ! i) [0..<n] = a21" "map (\<lambda>i. a22 ! i) [0..<n] = a22"
    using assms by (simp_all add: tabulate_nth)
  show "S11_f64 a11 a12 a21 a22 =
     Inr (map (\<lambda>i. fmul (Fin 0.5) (fadd (fadd (fadd (fmul (c_abs (a11 ! i)) (c_abs (a11 ! i)))
            (fmul (c_abs (a22 ! i)) (c_abs (a22 ! i)))) (fmul (c_abs (a21 ! i)) (c_abs (a21 ! i))))
            (fmul (c_abs (a12 ! i)) (c_abs (a12 ! i))))) [0..<n])"
    using S11_f64_tabulate [of "\<lambda>i. a11 ! i" n "\<lambda>i. a12 ! i" "\<lambda>i. a21 ! i" "\<lambda>i. a22 ! i"]
    by (simp only: tab)
  show "S12_f64 a11 a12 a21 a22 =
     Inr (map (\<lambda>i. fmul (Fin 0.5) (fsub (fadd (fsub (fmul (c_abs (a11 ! i)) (c_abs (a11 ! i)))
            (fmul (c_abs (a22 ! i)) (c_abs (a22 ! i)))) (fmul (c_abs (a21 ! i)) (c_abs (a21 ! i))))
            (fmul (c_abs (a12 ! i)) (c_abs (a12 ! i))))) [0..<n])"
    using S12_f64_tabulate [of "\<lambda>i. a11 ! i" n "\<lambda>i. a12 ! i" "\<lambda>i. a21 ! i" "\<lambda>i. a22 ! i"]
    by (simp only: tab)
  show "S21_f64 a11 a12 a21 a22 =
     Inr (map (\<lambda>i. fmul (Fin 0.5) (fadd (fsub (fsub (fmul (c_abs (a11 ! i)) (c_abs (a11 ! i)))
            (fmul (c_abs (a22 ! i)) (c_abs (a22 ! i)))) (fmul (c_abs (a21 ! i)) (c_abs (a21 ! i))))
            (fmul (c_abs (a12 ! i)) (c_abs (a12 ! i))))) [0..<n])"
    using S21_f64_tabulate [of "\<lambda>i. a11 ! i" n "\<lambda>i. a12 ! i" "\<lambda>i. a21 ! i" "\<lambda>i. a22 ! i"]
    by (simp only: tab)
qed

lemma isfinite_square:
  assumes "isfinite (fmul x x)"
  shows "\<exists>p. 0 \<le> p \<and> fmul x x = Fin p"
proof -
  from assms obtain p where p: "fmul x x = Fin p"
    by (cases "fmul x x") simp_all
  with square_finite_nonneg [OF p] show ?thesis
    by simp
qed

lemma bound_S12_S21:
  assumes "0 \<le> p" and "0 \<le> q" and "0 \<le> c" and "0 \<le> d"
  shows "fle (fabs (fmul (Fin 0.5) (fsub (fadd (fsub (Fin p) (Fin q)) (Fin c)) (Fin d))))
             (fmul (Fin 0.5) (fadd (fadd (fadd (Fin p) (Fin q)) (Fin c)) (Fin d)))"
    and "fle (fabs (fmul (Fin 0.5) (fadd (fsub (fsub (Fin p) (Fin q)) (Fin c)) (Fin d))))
             (fmul (Fin 0.5) (fadd (fadd (fadd (Fin p) (Fin q)) (Fin c)) (Fin d)))"
proof -
  note b = bound_base [OF assms(1,2)]
  show "fle (fabs (fmul (Fin 0.5) (fsub (fadd (fsub (Fin p) (Fin q)) (Fin c)) (Fin d))))
             (fmul (Fin 0.5) (fadd (fadd (fadd (Fin p) (Fin q)) (Fin c)) (Fin d)))"
    by (intro bound_half bound_step(2) [OF bound_step(1) [OF b assms(3)] assms(4)])
  show "fle (fabs (fmul (Fin 0.5) (fadd (fsub (fsub (Fin p) (Fin q)) (Fin c)) (Fin d))))
             (fmul (Fin 0.5) (fadd (fadd (fadd (Fin p) (Fin q)) (Fin c)) (Fin d)))"
    by (intro bound_half bound_step(1) [OF bound_step(2) [OF b assms(3)] assms(4)])
qed

lemma bound_squares:
  assumes "isfinite (fmul x x)" and "isfinite (fmul y y)" and "isfinite (fmul z z)"
    and "isfinite (fmul w w)"
  shows "fge (fmul (Fin 0.5) (fadd (fadd (fadd (fmul x x) (fmul y y)) (fmul z z)) (fmul w w)))
             (fabs (fmul (Fin 0.5) (fsub (fadd (fsub (fmul x x) (fmul y y)) (fmul z z)) (fmul w w))))"
    and "fge (fmul (Fin 0.5) (fadd (fadd (fadd (fmul x x) (fmul y y)) (fmul z z)) (fmul w w)))
             (fabs (fmul (Fin 0.5) (fadd (fsub (fsub (fmul x x) (fmul y y)) (fmul z z)) (fmul w w))))"
proof -
  from assms isfinite_square [of x] isfinite_square [of y] isfinite_square [of z]
    isfinite_square [of w]
  obtain p q c d where *: "fmul x x = Fin p" "0 \<le> p" "fmul y y = Fin q" "0 \<le> q"
    "fmul z z = Fin c" "0 \<le> c" "fmul w w = Fin d" "0 \<le> d"
    by auto
  show "fge (fmul (Fin 0.5) (fadd (fadd (fadd (fmul x x) (fmul y y)) (fmul z z)) (fmul w w)))
             (fabs (fmul (Fin 0.5) (fsub (fadd (fsub (fmul x x) (fmul y y)) (fmul z z)) (fmul w w))))"
    unfolding *(1,3,5,7) fge_def by (rule bound_S12_S21(1) [OF *(2,4,6,8)])
  show "fge (fmul (Fin 0.5) (fadd (fadd (fadd (fmul x x) (fmul y y)) (fmul z z)) (fmul w w)))
             (fabs (fmul (Fin 0.5) (fadd (fsub (fsub (fmul x x) (fmul y y)) (fmul z z)) (fmul w w))))"
    unfolding *(1,3,5,7) fge_def by (rule bound_S12_S21(2) [OF *(2,4,6,8)])
qed

lemma fadd_NaN_right [simp]: "fadd a NaN = NaN"
  by (cases a) simp_all

lemma fmul_NaN_right [simp]: "fmul a NaN = NaN"
  by (cases a) simp_all

lemma fsub_NaN [simp]: "fsub NaN b = NaN" "fsub a NaN = NaN"
  by (simp_all add: fsub_def)

lemma square_cases:
  "fmul x x = NaN \<or> fmul x x = PInf \<or> (\<exists>p. 0 \<le> p \<and> fmul x x = Fin p)"
proof (cases x)
  case (Fin x')
  with rnd_nonneg [of "x' * x'"] show ?thesis
    by auto
qed simp_all

lemma nan_or_bound_base:
  assumes "P = PInf \<or> (\<exists>p. 0 \<le> p \<and> P = Fin p)"
    and "Q = PInf \<or> (\<exists>q. 0 \<le> q \<and> Q = Fin q)"
  shows "fsub P Q = NaN \<or> fle (fabs (fsub P Q)) (fadd P Q)"
  using assms bound_base by (auto simp add: fsub_def)

lemma nan_or_bound_step:
  assumes "t = NaN \<or> fle (fabs t) s"
    and "C = PInf \<or> (\<exists>c. 0 \<le> c \<and> C = Fin c)"
  shows "fadd t C = NaN \<or> fle (fabs (fadd t C)) (fadd s C)"
    and "fsub t C = NaN \<or> fle (fabs (fsub t C)) (fadd s C)"
proof -
  show "fadd t C = NaN \<or> fle (fabs (fadd t C)) (fadd s C)"
  proof (cases "t = NaN")
    case True
    then show ?thesis by simp
  next
    case False
    with assms(1) have b: "fle (fabs t) s" by simp
    from assms(2) show ?thesis
    proof
      assume "C = PInf"
      with b show ?thesis
        by (cases t; cases s) simp_all
    next
      assume "\<exists>c. 0 \<le> c \<and> C = Fin c"
      with bound_step(1) [OF b] show ?thesis
        by auto
    qed
  qed
  show "fsub t C = NaN \<or> fle (fabs (fsub t C)) (fadd s C)"
  proof (cases "t = NaN")
    case True
    then show ?thesis by simp
  next
    case False
    with assms(1) have b: "fle (fabs t) s" by simp
    from assms(2) show ?thesis
    proof
      assume "C = PInf"
      with b show ?thesis
        by (cases t; cases s) (simp_all add: fsub_def)
    next
      assume "\<exists>c. 0 \<le> c \<and> C = Fin c"
      with bound_step(2) [OF b] show ?thesis
        by auto
    qed
  qed
qed

lemma nan_or_bound_half:
  assumes "t = NaN \<or> fle (fabs t) s"
  shows "fmul (Fin 0.5) t = NaN \<or> fle (fabs (fmul (Fin 0.5) t)) (fmul (Fin 0.5) s)"
  using assms bound_half [of t s] by auto

lemma bound_iff_not_NaN:
  fixes x y z w :: f64
  defines "P \<equiv> fmul x x" and "Q \<equiv> fmul y y" and "C \<equiv> fmul z z" and "D \<equiv> fmul w w"
  shows "fge (fmul (Fin 0.5) (fadd (fadd (fadd P Q) C) D))
             (fabs (fmul (Fin 0.5) (fsub (fadd (fsub P Q) C) D)))
         \<longleftrightarrow> fmul (Fin 0.5) (fsub (fadd (fsub P Q) C) D) \<noteq> NaN"
    and "fge (fmul (Fin 0.5) (fadd (fadd (fadd P Q) C) D))
             (fabs (fmul (Fin 0.5) (fadd (fsub (fsub P Q) C) D)))
         \<longleftrightarrow> fmul (Fin 0.5) (fadd (fsub (fsub P Q) C) D) \<noteq> NaN"
proof -
  have sq: "P = NaN \<or> P = PInf \<or> (\<exists>p. 0 \<le> p \<and> P = Fin p)"
    "Q = NaN \<or> Q = PInf \<or> (\<exists>p. 0 \<le> p \<and> Q = Fin p)"
    "C = NaN \<or> C = PInf \<or> (\<exists>p. 0 \<le> p \<and> C = Fin p)"
    "D = NaN \<or> D = PInf \<or> (\<exists>p. 0 \<le> p \<and> D = Fin p)"
    unfolding P_def Q_def C_def D_def by (rule square_cases)+
  let ?s = "fmul (Fin 0.5) (fadd (fadd (fadd P Q) C) D)"
  let ?t12 = "fmul (Fin 0.5) (fsub (fadd (fsub P Q) C) D)"
  let ?t21 = "fmul (Fin 0.5) (fadd (fsub (fsub P Q) C) D)"
  have "?t12 = NaN \<or> fle (fabs ?t12) ?s"
  proof (cases "P = NaN \<or> Q = NaN \<or> C = NaN \<or> D = NaN")
    case True
    then show ?thesis by auto
  next
    case False
    with sq have nn: "P = PInf \<or> (\<exists>p. 0 \<le> p \<and> P = Fin p)"
      "Q = PInf \<or> (\<exists>p. 0 \<le> p \<and> Q = Fin p)"
      "C = PInf \<or> (\<exists>p. 0 \<le> p \<and> C = Fin p)"
      "D = PInf \<or> (\<exists>p. 0 \<le> p \<and> D = Fin p)"
      by simp_all
    show ?thesis
      by (intro nan_or_bound_half nan_or_bound_step(2) [OF _ nn(4)]
          nan_or_bound_step(1) [OF _ nn(3)] nan_or_bound_base [OF nn(1,2)])
  qed
  then show "fge ?s (fabs ?t12) \<longleftrightarrow> ?t12 \<noteq> NaN"
    by (cases ?t12) (auto simp add: fge_def)
  have "?t21 = NaN \<or> fle (fabs ?t21) ?s"
  proof (cases "P = NaN \<or> Q = NaN \<or> C = NaN \<or> D = NaN")
    case True
    then show ?thesis by auto
  next
    case False
    with sq have nn: "P = PInf \<or> (\<exists>p. 0 \<le> p \<and> P = Fin p)"
      "Q = PInf \<or> (\<exists>p. 0 \<le> p \<and> Q = Fin p)"
      "C = PInf \<or> (\<exists>p. 0 \<le> p \<and> C = Fin p)"
      "D = PInf \<or> (\<exists>p. 0 \<le> p \<and> D = Fin p)"
      by simp_all
    show ?thesis
      by (intro nan_or_bound_half nan_or_bound_step(1) [OF _ nn(4)]
          nan_or_bound_step(2) [OF _ nn(3)] nan_or_bound_base [OF nn(1,2)])
  qed
  then show "fge ?s (fabs ?t21) \<longleftrightarrow> ?t21 \<noteq> NaN"
    by (cases ?t21) (auto simp add: fge_def)
qed

lemma c_abs_real_axis: "c_abs (C128 (Fin x) (Fin 0)) = rnd \<bar>x\<bar>"
  by (simp add: c_abs_def)

lemma fry_kattawar_values:
  "(1 + 7 / 2 ^ 27 + 1 / 2 ^ 50)\<^sup>2 + (- (5 / 2 ^ 27 + 9 / 2 ^ 53))\<^sup>2 + 0\<^sup>2 + 0\<^sup>2
     + (- (5 / 2 ^ 27 + 9 / 2 ^ 53))\<^sup>2 + (1 + 7 / 2 ^ 27 + 1 / 2 ^ 50)\<^sup>2 + 0\<^sup>2 + 0\<^sup>2
     + 0\<^sup>2 + 0\<^sup>2 + (1 + 7 / 2 ^ 27 + 1 / 2 ^ 51)\<^sup>2 + 0\<^sup>2
     + 0\<^sup>2 + 0\<^sup>2 + 0\<^sup>2 + (1 + 7 / 2 ^ 27 + 1 / 2 ^ 51)\<^sup>2
     \<noteq> (4 :: real) * (1 + 7 / 2 ^ 27 + 1 / 2 ^ 50)\<^sup>2"
  by (simp add: power2_eq_square)

section \<open>The amplitude scattering matrix, entry by entry\<close>

text \<open>
  C1. For a wavenumber \<open>k\<close>, an angle array \<open>th\<close> and far fields \<open>fz\<close>, \<open>fy\<close>, all of
  length \<open>N\<close>, the amplitude cell runs without error, returns four arrays of length \<open>N\<close>,
  and at every index \<open>i\<close>:
  \<open>A22[i] = -i k fz[i].z\<close>,
  \<open>A12[i] = -i k (-sin(th[i]) fz[i].x + cos(th[i]) fz[i].y)\<close>,
  \<open>A11[i] = -i k (-sin(th[i]) fy[i].x + cos(th[i]) fy[i].y)\<close>,
  \<open>A21[i] = -i k fy[i].z\<close>.
\<close>

theorem amplitude_builder_entries:
  assumes "length th = N" and "length fz = N" and "length fy = N"
  shows "\<exists>A. amplitude_builder k th fz fy = Inr A
    \<and> length (A11 A) = N \<and> length (A12 A) = N \<and> length (A21 A) = N \<and> length (A22 A) = N
    \<and> (\<forall>i<N.
         A22 A ! i = - \<i> * k * vz (fz ! i)
       \<and> A12 A ! i = - \<i> * k * (- complex_of_real (sin (th ! i)) * vx (fz ! i)
                                + complex_of_real (cos (th ! i)) * vy (fz ! i))
       \<and> A11 A ! i = - \<i> * k * (- complex_of_real (sin (th ! i)) * vx (fy ! i)
                                + complex_of_real (cos (th ! i)) * vy (fy ! i))
       \<and> A21 A ! i = - \<i> * k * vz (fy ! i))"
  by (simp add: amplitude_builder_equal_lengths [OF assms])

theorem amplitude_builder_entries_witness:
  "length [0::real] = 1 \<and> length [Vec3 1 2 3] = 1 \<and> length [Vec3 4 5 6] = 1
   \<and> (\<exists>A. amplitude_builder 5 [0] [Vec3 1 2 3] [Vec3 4 5 6] = Inr A
        \<and> A22 A ! 0 = - 15 * \<i> \<and> A12 A ! 0 = - 10 * \<i>
        \<and> A11 A ! 0 = - 25 * \<i> \<and> A21 A ! 0 = - 30 * \<i>)"
  using amplitude_builder_entries [of "[0]" 1 "[Vec3 1 2 3]" "[Vec3 4 5 6]" 5]
  by auto

section \<open>The phase scattering matrix, entry by entry\<close>

text \<open>
  C2. For four complex arrays \<open>a11\<close>, \<open>a12\<close>, \<open>a21\<close>, \<open>a22\<close> of one length \<open>N\<close>,
  the phase cell runs without error and returns sixteen real arrays of length \<open>N\<close>; the
  entry of each at index \<open>i\<close> is given by its formula from the four inputs at the same
  index \<open>i\<close> alone: \<open>S11 = (|A11|^2 + |A22|^2 + |A21|^2 + |A12|^2) / 2\<close>, ...,
  \<open>S34 = Im (A11 A22* + A21 A12*)\<close>, ..., \<open>S44 = Re (A11* A22 - A12 A21*)\<close>.
\<close>

theorem phase_builder_entries:
  assumes "length a11 = N" and "length a12 = N" and "length a21 = N" and "length a22 = N"
  shows "\<exists>P. phase_builder a11 a12 a21 a22 = Inr P
    \<and> length (S11 P) = N \<and> length (S12 P) = N \<and> length (S13 P) = N \<and> length (S14 P) = N
    \<and> length (S21 P) = N \<and> length (S22 P) = N \<and> length (S23 P) = N \<and> length (S24 P) = N
    \<and> length (S31 P) = N \<and> length (S32 P) = N \<and> length (S33 P) = N \<and> length (S34 P) = N
    \<and> length (S41 P) = N \<and> length (S42 P) = N \<and> length (S43 P) = N \<and> length (S44 P) = N
    \<and> (\<forall>i<N.
         S11 P ! i = 0.5 * ((cmod (a11 ! i))\<^sup>2 + (cmod (a22 ! i))\<^sup>2 + (cmod (a21 ! i))\<^sup>2 + (cmod (a12 ! i))\<^sup>2)
       \<and> S12 P ! i = 0.5 * ((cmod (a11 ! i))\<^sup>2 - (cmod (a22 ! i))\<^sup>2 + (cmod (a21 ! i))\<^sup>2 - (cmod (a12 ! i))\<^sup>2)
       \<and> S13 P ! i = Re (a11 ! i * cnj (a12 ! i) + a22 ! i * cnj (a21 ! i))
       \<and> S14 P ! i = Im (a11 ! i * cnj (a12 ! i) - a22 ! i * cnj (a21 ! i))
       \<and> S21 P ! i = 0.5 * ((cmod (a11 ! i))\<^sup>2 - (cmod (a22 ! i))\<^sup>2 - (cmod (a21 ! i))\<^sup>2 + (cmod (a12 ! i))\<^sup>2)
       \<and> S22 P ! i = 0.5 * ((cmod (a11 ! i))\<^sup>2 + (cmod (a22 ! i))\<^sup>2 - (cmod (a21 ! i))\<^sup>2 - (cmod (a12 ! i))\<^sup>2)
       \<and> S23 P ! i = Re (a11 ! i * cnj (a12 ! i) - a22 ! i * cnj (a21 ! i))
       \<and> S24 P ! i = Im (a11 ! i * cnj (a12 ! i) + a22 ! i * cnj (a21 ! i))
       \<and> S31 P ! i = Re (a11 ! i * cnj (a21 ! i) + a22 ! i * cnj (a12 ! i))
       \<and> S32 P ! i = Re (a11 ! i * cnj (a21 ! i) - a22 ! i * cnj (a12 ! i))
       \<and> S33 P ! i = Re (cnj (a11 ! i) * a22 ! i + a12 ! i * cnj (a21 ! i))
       \<and> S34 P ! i = Im (a11 ! i * cnj (a22 ! i) + a21 ! i * cnj (a12 ! i))
       \<and> S41 P ! i = Im (cnj (a11 ! i) * a21 ! i + cnj (a12 ! i) * a22 ! i)
       \<and> S42 P ! i = Im (cnj (a11 ! i) * a21 ! i - cnj (a12 ! i) * a22 ! i)
       \<and> S43 P ! i = Im (a22 ! i * cnj (a11 ! i) - a12 ! i * cnj (a21 ! i))
       \<and> S44 P ! i = Re (cnj (a11 ! i) * a22 ! i - a12 ! i * cnj (a21 ! i)))"
  using phase_builder_pointwise [OF assms] .

theorem phase_builder_entries_witness:
  "length [1::complex] = 1 \<and> length [\<i>] = 1 \<and> length [0::complex] = 1 \<and> length [2::complex] = 1
   \<and> (\<exists>P. phase_builder [1] [\<i>] [0] [2] = Inr P
        \<and> S11 P ! 0 = 3 \<and> S12 P ! 0 = - 2 \<and> S13 P ! 0 = 0 \<and> S14 P ! 0 = - 1
        \<and> S21 P ! 0 = - 1 \<and> S22 P ! 0 = 2 \<and> S23 P ! 0 = 0 \<and> S24 P ! 0 = - 1
        \<and> S31 P ! 0 = 0 \<and> S32 P ! 0 = 0 \<and> S33 P ! 0 = 2 \<and> S34 P ! 0 = 0
        \<and> S41 P ! 0 = - 2 \<and> S42 P ! 0 = 2 \<and> S43 P ! 0 = 0 \<and> S44 P ! 0 = 2)"
  using phase_builder_entries [of "[1]" 1 "[\<i>]" "[0]" "[2]"]
  by auto

section \<open>Relations between the phase matrix entries\<close>

text \<open>
  C5, as the code has it. For four complex arrays of one length and every index \<open>i\<close>, the
  float64 entries satisfy \<open>S11[i] >= |S12[i]|\<close> exactly when \<open>S12[i]\<close> is not NaN, and
  \<open>S11[i] >= |S21[i]|\<close> exactly when \<open>S21[i]\<close> is not NaN, whatever the roundings and
  even if a square or a sum overflows. In particular both bounds hold at every index at
  which the four squared moduli \<open>abs(A11)**2\<close>, \<open>abs(A12)**2\<close>, \<open>abs(A21)**2\<close> and
  \<open>abs(A22)**2\<close> are finite float64 values.
\<close>

theorem S11_bounds_S12_S21_finite:
  assumes "length a11 = N" and "length a12 = N" and "length a21 = N" and "length a22 = N"
  shows "\<exists>s11 s12 s21. S11_f64 a11 a12 a21 a22 = Inr s11 \<and> S12_f64 a11 a12 a21 a22 = Inr s12
    \<and> S21_f64 a11 a12 a21 a22 = Inr s21
    \<and> length s11 = N \<and> length s12 = N \<and> length s21 = N
    \<and> (\<forall>i<N. (fge (s11 ! i) (fabs (s12 ! i)) \<longleftrightarrow> s12 ! i \<noteq> NaN)
            \<and> (fge (s11 ! i) (fabs (s21 ! i)) \<longleftrightarrow> s21 ! i \<noteq> NaN)
            \<and> (isfinite (fmul (c_abs (a11 ! i)) (c_abs (a11 ! i)))
                \<and> isfinite (fmul (c_abs (a12 ! i)) (c_abs (a12 ! i)))
                \<and> isfinite (fmul (c_abs (a21 ! i)) (c_abs (a21 ! i)))
                \<and> isfinite (fmul (c_abs (a22 ! i)) (c_abs (a22 ! i)))
              \<longrightarrow> fge (s11 ! i) (fabs (s12 ! i)) \<and> fge (s11 ! i) (fabs (s21 ! i))))"
proof -
  let ?s11 = "(map (\<lambda>i. fmul (Fin 0.5) (fadd (fadd (fadd (fmul (c_abs (a11 ! i)) (c_abs (a11 ! i)))
            (fmul (c_abs (a22 ! i)) (c_abs (a22 ! i)))) (fmul (c_abs (a21 ! i)) (c_abs (a21 ! i))))
            (fmul (c_abs (a12 ! i)) (c_abs (a12 ! i))))) [0..<N])"
  let ?s12 = "(map (\<lambda>i. fmul (Fin 0.5) (fsub (fadd (fsub (fmul (c_abs (a11 ! i)) (c_abs (a11 ! i)))
            (fmul (c_abs (a22 ! i)) (c_abs (a22 ! i)))) (fmul (c_abs (a21 ! i)) (c_abs (a21 ! i))))
            (fmul (c_abs (a12 ! i)) (c_abs (a12 ! i))))) [0..<N])"
  let ?s21 = "(map (\<lambda>i. fmul (Fin 0.5) (fadd (fsub (fsub (fmul (c_abs (a11 ! i)) (c_abs (a11 ! i)))
            (fmul (c_abs (a22 ! i)) (c_abs (a22 ! i)))) (fmul (c_abs (a21 ! i)) (c_abs (a21 ! i))))
            (fmul (c_abs (a12 ! i)) (c_abs (a12 ! i))))) [0..<N])"
  have fin: "fge (?s11 ! i) (fabs (?s12 ! i)) \<and> fge (?s11 ! i) (fabs (?s21 ! i))"
    if "i < N" and "isfinite (fmul (c_abs (a11 ! i)) (c_abs (a11 ! i)))
              \<and> isfinite (fmul (c_abs (a12 ! i)) (c_abs (a12 ! i)))
              \<and> isfinite (fmul (c_abs (a21 ! i)) (c_abs (a21 ! i)))
              \<and> isfinite (fmul (c_abs (a22 ! i)) (c_abs (a22 ! i)))" for i
    using that bound_squares [of "c_abs (a11 ! i)" "c_abs (a22 ! i)" "c_abs (a21 ! i)"
        "c_abs (a12 ! i)"]
    by simp
  have nan: "(fge (?s11 ! i) (fabs (?s12 ! i)) \<longleftrightarrow> ?s12 ! i \<noteq> NaN)
      \<and> (fge (?s11 ! i) (fabs (?s21 ! i)) \<longleftrightarrow> ?s21 ! i \<noteq> NaN)"
    if "i < N" for i
    using that bound_iff_not_NaN [of "c_abs (a11 ! i)" "c_abs (a22 ! i)" "c_abs (a21 ! i)"
        "c_abs (a12 ! i)"]
    by simp
  have "(fge (?s11 ! i) (fabs (?s12 ! i)) \<longleftrightarrow> ?s12 ! i \<noteq> NaN)
      \<and> (fge (?s11 ! i) (fabs (?s21 ! i)) \<longleftrightarrow> ?s21 ! i \<noteq> NaN)
      \<and> (isfinite (fmul (c_abs (a11 ! i)) (c_abs (a11 ! i)))
                \<and> isfinite (fmul (c_abs (a12 ! i)) (c_abs (a12 ! i)))
                \<and> isfinite (fmul (c_abs (a21 ! i)) (c_abs (a21 ! i)))
                \<and> isfinite (fmul (c_abs (a22 ! i)) (c_abs (a22 ! i)))
              \<longrightarrow> fge (?s11 ! i) (fabs (?s12 ! i)) \<and> fge (?s11 ! i) (fabs (?s21 ! i)))"
    if "i < N" for i
    using nan [OF that] fin [OF that] by blast
  then have all: "\<forall>i<N. (fge (?s11 ! i) (fabs (?s12 ! i)) \<longleftrightarrow> ?s12 ! i \<noteq> NaN)
      \<and> (fge (?s11 ! i) (fabs (?s21 ! i)) \<longleftrightarrow> ?s21 ! i \<noteq> NaN)
      \<and> (isfinite (fmul (c_abs (a11 ! i)) (c_abs (a11 ! i)))
                \<and> isfinite (fmul (c_abs (a12 ! i)) (c_abs (a12 ! i)))
                \<and> isfinite (fmul (c_abs (a21 ! i)) (c_abs (a21 ! i)))
                \<and> isfinite (fmul (c_abs (a22 ! i)) (c_abs (a22 ! i)))
              \<longrightarrow> fge (?s11 ! i) (fabs (?s12 ! i)) \<and> fge (?s11 ! i) (fabs (?s21 ! i)))"
    by blast
  have len: "length ?s11 = N" "length ?s12 = N" "length ?s21 = N"
    by simp_all
  show ?thesis
    unfolding S_f64_equal_lengths [OF assms]
    by (intro exI [of _ ?s11] exI [of _ ?s12] exI [of _ ?s21] conjI refl len all)
qed

theorem S11_bounds_S12_S21_finite_witness:
  "\<exists>s11 s12 s21.
      S11_f64 [C128 (Fin 1) (Fin 0)] [C128 (Fin 0) (Fin 0)] [C128 (Fin 1) (Fin 0)]
        [C128 (Fin 1) (Fin 0)] = Inr s11
    \<and> S12_f64 [C128 (Fin 1) (Fin 0)] [C128 (Fin 0) (Fin 0)] [C128 (Fin 1) (Fin 0)]
        [C128 (Fin 1) (Fin 0)] = Inr s12
    \<and> S21_f64 [C128 (Fin 1) (Fin 0)] [C128 (Fin 0) (Fin 0)] [C128 (Fin 1) (Fin 0)]
        [C128 (Fin 1) (Fin 0)] = Inr s21
    \<and> fge (s11 ! 0) (fabs (s12 ! 0)) \<and> fge (s11 ! 0) (fabs (s21 ! 0))
    \<and> s12 ! 0 \<noteq> NaN \<and> s21 ! 0 \<noteq> NaN"
proof -
  let ?a11 = "[C128 (Fin 1) (Fin 0)]" and ?a12 = "[C128 (Fin 0) (Fin 0)]"
    and ?a21 = "[C128 (Fin 1) (Fin 0)]" and ?a22 = "[C128 (Fin 1) (Fin 0)]"
  have len: "length ?a11 = 1" "length ?a12 = 1" "length ?a21 = 1" "length ?a22 = 1"
    by simp_all
  have fin: "isfinite (fmul (c_abs (?a11 ! 0)) (c_abs (?a11 ! 0)))
       \<and> isfinite (fmul (c_abs (?a12 ! 0)) (c_abs (?a12 ! 0)))
       \<and> isfinite (fmul (c_abs (?a21 ! 0)) (c_abs (?a21 ! 0)))
       \<and> isfinite (fmul (c_abs (?a22 ! 0)) (c_abs (?a22 ! 0)))"
    by (simp add: c_abs_real_axis rnd_one)
  from S11_bounds_S12_S21_finite [OF len] obtain s11 s12 s21 where
    run: "S11_f64 ?a11 ?a12 ?a21 ?a22 = Inr s11" "S12_f64 ?a11 ?a12 ?a21 ?a22 = Inr s12"
      "S21_f64 ?a11 ?a12 ?a21 ?a22 = Inr s21"
    and all: "\<forall>i<1. (fge (s11 ! i) (fabs (s12 ! i)) \<longleftrightarrow> s12 ! i \<noteq> NaN)
            \<and> (fge (s11 ! i) (fabs (s21 ! i)) \<longleftrightarrow> s21 ! i \<noteq> NaN)
            \<and> (isfinite (fmul (c_abs (?a11 ! i)) (c_abs (?a11 ! i)))
                \<and> isfinite (fmul (c_abs (?a12 ! i)) (c_abs (?a12 ! i)))
                \<and> isfinite (fmul (c_abs (?a21 ! i)) (c_abs (?a21 ! i)))
                \<and> isfinite (fmul (c_abs (?a22 ! i)) (c_abs (?a22 ! i)))
              \<longrightarrow> fge (s11 ! i) (fabs (s12 ! i)) \<and> fge (s11 ! i) (fabs (s21 ! i)))"
    by (elim exE conjE) (rule that, assumption+)
  have "(0::nat) < 1"
    by simp
  from all [rule_format, OF this] fin run show ?thesis
    by blast
qed

text \<open>
  The claim as first stated, for every input, fails where two squared moduli overflow:
  with \<open>A11 = A22 = 2^700\<close> and \<open>A12 = A21 = 0\<close> both squares are infinite, \<open>S11\<close> is
  infinite, \<open>S12\<close> is the difference of two infinities, NaN, and the comparison
  \<open>S11 >= |S12|\<close> is false.
\<close>

theorem S11_bound_overflow_counterexample:
  "S11_f64 [C128 (Fin (2 ^ 700)) (Fin 0)] [C128 (Fin 0) (Fin 0)] [C128 (Fin 0) (Fin 0)]
        [C128 (Fin (2 ^ 700)) (Fin 0)] = Inr [PInf]
   \<and> S12_f64 [C128 (Fin (2 ^ 700)) (Fin 0)] [C128 (Fin 0) (Fin 0)] [C128 (Fin 0) (Fin 0)]
        [C128 (Fin (2 ^ 700)) (Fin 0)] = Inr [NaN]
   \<and> \<not> fge PInf (fabs NaN)"
  by (simp add: S11_f64_def S12_f64_def f64_defs broadcast_def fsub_def fge_def
      c_abs_real_axis rnd_2_700 [simplified] rnd_2_1400 [simplified])



text \<open>
  C9, as the code has it. The Fry-Kattawar identity is an identity of the sixteen
  formulas in exact arithmetic: for four complex arrays of one length and every index
  \<open>i\<close>, the squares of the sixteen exact entries at \<open>i\<close> add up to \<open>4 * S11[i]^2\<close>.
\<close>

theorem fry_kattawar_identity:
  assumes "length a11 = N" and "length a12 = N" and "length a21 = N" and "length a22 = N"
  shows "\<exists>P. phase_builder a11 a12 a21 a22 = Inr P
    \<and> (\<forall>i<N.
         (S11 P ! i)\<^sup>2 + (S12 P ! i)\<^sup>2 + (S13 P ! i)\<^sup>2 + (S14 P ! i)\<^sup>2
       + (S21 P ! i)\<^sup>2 + (S22 P ! i)\<^sup>2 + (S23 P ! i)\<^sup>2 + (S24 P ! i)\<^sup>2
       + (S31 P ! i)\<^sup>2 + (S32 P ! i)\<^sup>2 + (S33 P ! i)\<^sup>2 + (S34 P ! i)\<^sup>2
       + (S41 P ! i)\<^sup>2 + (S42 P ! i)\<^sup>2 + (S43 P ! i)\<^sup>2 + (S44 P ! i)\<^sup>2
       = 4 * (S11 P ! i)\<^sup>2)"
proof -
  from phase_builder_pointwise [OF assms] obtain P where
    run: "phase_builder a11 a12 a21 a22 = Inr P" and
    entries: "\<And>i. i < N \<Longrightarrow>
         S11 P ! i = 0.5 * ((cmod (a11 ! i))\<^sup>2 + (cmod (a22 ! i))\<^sup>2 + (cmod (a21 ! i))\<^sup>2 + (cmod (a12 ! i))\<^sup>2)
       \<and> S12 P ! i = 0.5 * ((cmod (a11 ! i))\<^sup>2 - (cmod (a22 ! i))\<^sup>2 + (cmod (a21 ! i))\<^sup>2 - (cmod (a12 ! i))\<^sup>2)
       \<and> S13 P ! i = Re (a11 ! i * cnj (a12 ! i) + a22 ! i * cnj (a21 ! i))
       \<and> S14 P ! i = Im (a11 ! i * cnj (a12 ! i) - a22 ! i * cnj (a21 ! i))
       \<and> S21 P ! i = 0.5 * ((cmod (a11 ! i))\<^sup>2 - (cmod (a22 ! i))\<^sup>2 - (cmod (a21 ! i))\<^sup>2 + (cmod (a12 ! i))\<^sup>2)
       \<and> S22 P ! i = 0.5 * ((cmod (a11 ! i))\<^sup>2 + (cmod (a22 ! i))\<^sup>2 - (cmod (a21 ! i))\<^sup>2 - (cmod (a12 ! i))\<^sup>2)
       \<and> S23 P ! i = Re (a11 ! i * cnj (a12 ! i) - a22 ! i * cnj (a21 ! i))
       \<and> S24 P ! i = Im (a11 ! i * cnj (a12 ! i) + a22 ! i * cnj (a21 ! i))
       \<and> S31 P ! i = Re (a11 ! i * cnj (a21 ! i) + a22 ! i * cnj (a12 ! i))
       \<and> S32 P ! i = Re (a11 ! i * cnj (a21 ! i) - a22 ! i * cnj (a12 ! i))
       \<and> S33 P ! i = Re (cnj (a11 ! i) * a22 ! i + a12 ! i * cnj (a21 ! i))
       \<and> S34 P ! i = Im (a11 ! i * cnj (a22 ! i) + a21 ! i * cnj (a12 ! i))
       \<and> S41 P ! i = Im (cnj (a11 ! i) * a21 ! i + cnj (a12 ! i) * a22 ! i)
       \<and> S42 P ! i = Im (cnj (a11 ! i) * a21 ! i - cnj (a12 ! i) * a22 ! i)
       \<and> S43 P ! i = Im (a22 ! i * cnj (a11 ! i) - a12 ! i * cnj (a21 ! i))
       \<and> S44 P ! i = Re (cnj (a11 ! i) * a22 ! i - a12 ! i * cnj (a21 ! i))"
    by blast
  show ?thesis
  proof (intro exI conjI allI impI)
    show "phase_builder a11 a12 a21 a22 = Inr P" by (rule run)
  next
    fix i assume "i < N"
    note e = entries [OF this]
    show "(S11 P ! i)\<^sup>2 + (S12 P ! i)\<^sup>2 + (S13 P ! i)\<^sup>2 + (S14 P ! i)\<^sup>2
       + (S21 P ! i)\<^sup>2 + (S22 P ! i)\<^sup>2 + (S23 P ! i)\<^sup>2 + (S24 P ! i)\<^sup>2
       + (S31 P ! i)\<^sup>2 + (S32 P ! i)\<^sup>2 + (S33 P ! i)\<^sup>2 + (S34 P ! i)\<^sup>2
       + (S41 P ! i)\<^sup>2 + (S42 P ! i)\<^sup>2 + (S43 P ! i)\<^sup>2 + (S44 P ! i)\<^sup>2
       = 4 * (S11 P ! i)\<^sup>2"
      by (simp only: e fry_kattawar_pointwise)
  qed
qed

theorem fry_kattawar_identity_witness:
  "length [1::complex] = 1 \<and> length [\<i>] = 1 \<and> length [0::complex] = 1 \<and> length [2::complex] = 1
   \<and> (\<exists>P. phase_builder [1] [\<i>] [0] [2] = Inr P
        \<and> (S11 P ! 0)\<^sup>2 + (S12 P ! 0)\<^sup>2 + (S13 P ! 0)\<^sup>2 + (S14 P ! 0)\<^sup>2
         + (S21 P ! 0)\<^sup>2 + (S22 P ! 0)\<^sup>2 + (S23 P ! 0)\<^sup>2 + (S24 P ! 0)\<^sup>2
         + (S31 P ! 0)\<^sup>2 + (S32 P ! 0)\<^sup>2 + (S33 P ! 0)\<^sup>2 + (S34 P ! 0)\<^sup>2
         + (S41 P ! 0)\<^sup>2 + (S42 P ! 0)\<^sup>2 + (S43 P ! 0)\<^sup>2 + (S44 P ! 0)\<^sup>2
         = 4 * (S11 P ! 0)\<^sup>2)"
  using fry_kattawar_identity [of "[1]" 1 "[\<i>]" "[0]" "[2]"]
  by auto

text \<open>
  The claim as first stated, about the entries the code computes, fails under rounding.
  With \<open>A11 = 1 + 2^-27\<close>, \<open>A22 = 1 + 6 * 2^-27\<close> and \<open>A12 = A21 = 0\<close> every operation
  of the cell is an exact float64 operation except three that round (\<open>A11^2\<close>, the sum
  of the two squares, and \<open>A11 * A22\<close>), and the squares of the sixteen computed entries
  do not add up to \<open>4 * S11^2\<close>.
\<close>

theorem fry_kattawar_rounding_counterexample:
  "S11_f64 [C128 (Fin (1 + 1 / 2 ^ 27)) (Fin 0)] [C128 (Fin 0) (Fin 0)] [C128 (Fin 0) (Fin 0)]
       [C128 (Fin (1 + 6 / 2 ^ 27)) (Fin 0)]
       = Inr [Fin (1 + 7 / 2 ^ 27 + 1 / 2 ^ 50)]
   \<and> S12_f64 [C128 (Fin (1 + 1 / 2 ^ 27)) (Fin 0)] [C128 (Fin 0) (Fin 0)] [C128 (Fin 0) (Fin 0)]
       [C128 (Fin (1 + 6 / 2 ^ 27)) (Fin 0)]
       = Inr [Fin (- (5 / 2 ^ 27 + 9 / 2 ^ 53))]
   \<and> S13_f64 [C128 (Fin (1 + 1 / 2 ^ 27)) (Fin 0)] [C128 (Fin 0) (Fin 0)] [C128 (Fin 0) (Fin 0)]
       [C128 (Fin (1 + 6 / 2 ^ 27)) (Fin 0)]
       = Inr [Fin 0]
   \<and> S14_f64 [C128 (Fin (1 + 1 / 2 ^ 27)) (Fin 0)] [C128 (Fin 0) (Fin 0)] [C128 (Fin 0) (Fin 0)]
       [C128 (Fin (1 + 6 / 2 ^ 27)) (Fin 0)]
       = Inr [Fin 0]
   \<and> S21_f64 [C128 (Fin (1 + 1 / 2 ^ 27)) (Fin 0)] [C128 (Fin 0) (Fin 0)] [C128 (Fin 0) (Fin 0)]
       [C128 (Fin (1 + 6 / 2 ^ 27)) (Fin 0)]
       = Inr [Fin (- (5 / 2 ^ 27 + 9 / 2 ^ 53))]
   \<and> S22_f64 [C128 (Fin (1 + 1 / 2 ^ 27)) (Fin 0)] [C128 (Fin 0) (Fin 0)] [C128 (Fin 0) (Fin 0)]
       [C128 (Fin (1 + 6 / 2 ^ 27)) (Fin 0)]
       = Inr [Fin (1 + 7 / 2 ^ 27 + 1 / 2 ^ 50)]
   \<and> S23_f64 [C128 (Fin (1 + 1 / 2 ^ 27)) (Fin 0)] [C128 (Fin 0) (Fin 0)] [C128 (Fin 0) (Fin 0)]
       [C128 (Fin (1 + 6 / 2 ^ 27)) (Fin 0)]
       = Inr [Fin 0]
   \<and> S24_f64 [C128 (Fin (1 + 1 / 2 ^ 27)) (Fin 0)] [C128 (Fin 0) (Fin 0)] [C128 (Fin 0) (Fin 0)]
       [C128 (Fin (1 + 6 / 2 ^ 27)) (Fin 0)]
       = Inr [Fin 0]
   \<and> S31_f64 [C128 (Fin (1 + 1 / 2 ^ 27)) (Fin 0)] [C128 (Fin 0) (Fin 0)] [C128 (Fin 0) (Fin 0)]
       [C128 (Fin (1 + 6 / 2 ^ 27)) (Fin 0)]
       = Inr [Fin 0]
   \<and> S32_f64 [C128 (Fin (1 + 1 / 2 ^ 27)) (Fin 0)] [C128 (Fin 0) (Fin 0)] [C128 (Fin 0) (Fin 0)]
       [C128 (Fin (1 + 6 / 2 ^ 27)) (Fin 0)]
       = Inr [Fin 0]
   \<and> S33_f64 [C128 (Fin (1 + 1 / 2 ^ 27)) (Fin 0)] [C128 (Fin 0) (Fin 0)] [C128 (Fin 0) (Fin 0)]
       [C128 (Fin (1 + 6 / 2 ^ 27)) (Fin 0)]
       = Inr [Fin (1 + 7 / 2 ^ 27 + 1 / 2 ^ 51)]
   \<and> S34_f64 [C128 (Fin (1 + 1 / 2 ^ 27)) (Fin 0)] [C128 (Fin 0) (Fin 0)] [C128 (Fin 0) (Fin 0)]
       [C128 (Fin (1 + 6 / 2 ^ 27)) (Fin 0)]
       = Inr [Fin 0]
   \<and> S41_f64 [C128 (Fin (1 + 1 / 2 ^ 27)) (Fin 0)] [C128 (Fin 0) (Fin 0)] [C128 (Fin 0) (Fin 0)]
       [C128 (Fin (1 + 6 / 2 ^ 27)) (Fin 0)]
       = Inr [Fin 0]
   \<and> S42_f64 [C128 (Fin (1 + 1 / 2 ^ 27)) (Fin 0)] [C128 (Fin 0) (Fin 0)] [C128 (Fin 0) (Fin 0)]
       [C128 (Fin (1 + 6 / 2 ^ 27)) (Fin 0)]
       = Inr [Fin 0]
   \<and> S43_f64 [C128 (Fin (1 + 1 / 2 ^ 27)) (Fin 0)] [C128 (Fin 0) (Fin 0)] [C128 (Fin 0) (Fin 0)]
       [C128 (Fin (1 + 6 / 2 ^ 27)) (Fin 0)]
       = Inr [Fin 0]
   \<and> S44_f64 [C128 (Fin (1 + 1 / 2 ^ 27)) (Fin 0)] [C128 (Fin 0) (Fin 0)] [C128 (Fin 0) (Fin 0)]
       [C128 (Fin (1 + 6 / 2 ^ 27)) (Fin 0)]
       = Inr [Fin (1 + 7 / 2 ^ 27 + 1 / 2 ^ 51)]
   \<and> (1 + 7 / 2 ^ 27 + 1 / 2 ^ 50)\<^sup>2 + (- (5 / 2 ^ 27 + 9 / 2 ^ 53))\<^sup>2 + 0\<^sup>2 + 0\<^sup>2
     + (- (5 / 2 ^ 27 + 9 / 2 ^ 53))\<^sup>2 + (1 + 7 / 2 ^ 27 + 1 / 2 ^ 50)\<^sup>2 + 0\<^sup>2 + 0\<^sup>2
     + 0\<^sup>2 + 0\<^sup>2 + (1 + 7 / 2 ^ 27 + 1 / 2 ^ 51)\<^sup>2 + 0\<^sup>2
     + 0\<^sup>2 + 0\<^sup>2 + 0\<^sup>2 + (1 + 7 / 2 ^ 27 + 1 / 2 ^ 51)\<^sup>2
     \<noteq> (4 :: real) * (1 + 7 / 2 ^ 27 + 1 / 2 ^ 50)\<^sup>2"
proof -
  have run: "S11_f64 [C128 (Fin (1 + 1 / 2 ^ 27)) (Fin 0)] [C128 (Fin 0) (Fin 0)] [C128 (Fin 0) (Fin 0)]
       [C128 (Fin (1 + 6 / 2 ^ 27)) (Fin 0)]
       = Inr [Fin (1 + 7 / 2 ^ 27 + 1 / 2 ^ 50)]
   \<and> S12_f64 [C128 (Fin (1 + 1 / 2 ^ 27)) (Fin 0)] [C128 (Fin 0) (Fin 0)] [C128 (Fin 0) (Fin 0)]
       [C128 (Fin (1 + 6 / 2 ^ 27)) (Fin 0)]
       = Inr [Fin (- (5 / 2 ^ 27 + 9 / 2 ^ 53))]
   \<and> S13_f64 [C128 (Fin (1 + 1 / 2 ^ 27)) (Fin 0)] [C128 (Fin 0) (Fin 0)] [C128 (Fin 0) (Fin 0)]
       [C128 (Fin (1 + 6 / 2 ^ 27)) (Fin 0)]
       = Inr [Fin 0]
   \<and> S14_f64 [C128 (Fin (1 + 1 / 2 ^ 27)) (Fin 0)] [C128 (Fin 0) (Fin 0)] [C128 (Fin 0) (Fin 0)]
       [C128 (Fin (1 + 6 / 2 ^ 27)) (Fin 0)]
       = Inr [Fin 0]
   \<and> S21_f64 [C128 (Fin (1 + 1 / 2 ^ 27)) (Fin 0)] [C128 (Fin 0) (Fin 0)] [C128 (Fin 0) (Fin 0)]
       [C128 (Fin (1 + 6 / 2 ^ 27)) (Fin 0)]
       = Inr [Fin (- (5 / 2 ^ 27 + 9 / 2 ^ 53))]
   \<and> S22_f64 [C128 (Fin (1 + 1 / 2 ^ 27)) (Fin 0)] [C128 (Fin 0) (Fin 0)] [C128 (Fin 0) (Fin 0)]
       [C128 (Fin (1 + 6 / 2 ^ 27)) (Fin 0)]
       = Inr [Fin (1 + 7 / 2 ^ 27 + 1 / 2 ^ 50)]
   \<and> S23_f64 [C128 (Fin (1 + 1 / 2 ^ 27)) (Fin 0)] [C128 (Fin 0) (Fin 0)] [C128 (Fin 0) (Fin 0)]
       [C128 (Fin (1 + 6 / 2 ^ 27)) (Fin 0)]
       = Inr [Fin 0]
   \<and> S24_f64 [C128 (Fin (1 + 1 / 2 ^ 27)) (Fin 0)] [C128 (Fin 0) (Fin 0)] [C128 (Fin 0) (Fin 0)]
       [C128 (Fin (1 + 6 / 2 ^ 27)) (Fin 0)]
       = Inr [Fin 0]
   \<and> S31_f64 [C128 (Fin (1 + 1 / 2 ^ 27)) (Fin 0)] [C128 (Fin 0) (Fin 0)] [C128 (Fin 0) (Fin 0)]
       [C128 (Fin (1 + 6 / 2 ^ 27)) (Fin 0)]
       = Inr [Fin 0]
   \<and> S32_f64 [C128 (Fin (1 + 1 / 2 ^ 27)) (Fin 0)] [C128 (Fin 0) (Fin 0)] [C128 (Fin 0) (Fin 0)]
       [C128 (Fin (1 + 6 / 2 ^ 27)) (Fin 0)]
       = Inr [Fin 0]
   \<and> S33_f64 [C128 (Fin (1 + 1 / 2 ^ 27)) (Fin 0)] [C128 (Fin 0) (Fin 0)] [C128 (Fin 0) (Fin 0)]
       [C128 (Fin (1 + 6 / 2 ^ 27)) (Fin 0)]
       = Inr [Fin (1 + 7 / 2 ^ 27 + 1 / 2 ^ 51)]
   \<and> S34_f64 [C128 (Fin (1 + 1 / 2 ^ 27)) (Fin 0)] [C128 (Fin 0) (Fin 0)] [C128 (Fin 0) (Fin 0)]
       [C128 (Fin (1 + 6 / 2 ^ 27)) (Fin 0)]
       = Inr [Fin 0]
   \<and> S41_f64 [C128 (Fin (1 + 1 / 2 ^ 27)) (Fin 0)] [C128 (Fin 0) (Fin 0)] [C128 (Fin 0) (Fin 0)]
       [C128 (Fin (1 + 6 / 2 ^ 27)) (Fin 0)]
       = Inr [Fin 0]
   \<and> S42_f64 [C128 (Fin (1 + 1 / 2 ^ 27)) (Fin 0)] [C128 (Fin 0) (Fin 0)] [C128 (Fin 0) (Fin 0)]
       [C128 (Fin (1 + 6 / 2 ^ 27)) (Fin 0)]
       = Inr [Fin 0]
   \<and> S43_f64 [C128 (Fin (1 + 1 / 2 ^ 27)) (Fin 0)] [C128 (Fin 0) (Fin 0)] [C128 (Fin 0) (Fin 0)]
       [C128 (Fin (1 + 6 / 2 ^ 27)) (Fin 0)]
       = Inr [Fin 0]
   \<and> S44_f64 [C128 (Fin (1 + 1 / 2 ^ 27)) (Fin 0)] [C128 (Fin 0) (Fin 0)] [C128 (Fin 0) (Fin 0)]
       [C128 (Fin (1 + 6 / 2 ^ 27)) (Fin 0)]
       = Inr [Fin (1 + 7 / 2 ^ 27 + 1 / 2 ^ 51)]"
    by (simp add: S11_f64_def S12_f64_def S13_f64_def S14_f64_def S21_f64_def S22_f64_def
      S23_f64_def S24_f64_def S31_f64_def S32_f64_def S33_f64_def S34_f64_def
      S41_f64_def S42_f64_def S43_f64_def S44_f64_def f64_defs broadcast_def fsub_def
      c_mul_def c_add_def c_sub_def c_conj_def c_abs_real_axis
      rnd_fk_1 rnd_fk_2 rnd_fk_3 rnd_fk_4 rnd_fk_5 rnd_fk_6 rnd_fk_7 rnd_fk_8 rnd_fk_9 rnd_fk_10 rnd_fk_11)
  from run fry_kattawar_values show ?thesis
    by (simp only: simp_thms)
qed

section \<open>The sample directions of the far field\<close>




section \<open>The constant far fields, through both cells\<close>

text \<open>
  C3. With the far fields \<open>F_z[i] = (0, 0, 1)\<close> and \<open>F_y[i] = (0, 1, 0)\<close> at every one
  of the 3601 directions, \<open>k = 5\<close> and the notebook's angles \<open>theta[i] = i * 2 pi / 3600\<close>,
  both cells run without error and give, at every index \<open>i\<close>, \<open>A22[i] = -5i\<close>,
  \<open>A11[i] = -5i cos(theta[i])\<close>, \<open>A12[i] = 0\<close>, \<open>A21[i] = 0\<close> and
  \<open>S11[i] = (25 cos(theta[i])^2 + 25) / 2\<close>; so \<open>S11 = 25\<close> at \<open>theta = 0\<close> (index 0)
  and \<open>S11 = 12.5\<close> at \<open>theta = pi / 2\<close> (index 900).
\<close>

theorem synthetic_round_trip:
  "\<exists>A P. amplitude_builder 5 (theta (cell14 g)) (replicate 3601 (Vec3 0 0 1))
            (replicate 3601 (Vec3 0 1 0)) = Inr A
    \<and> phase_builder (A11 A) (A12 A) (A21 A) (A22 A) = Inr P
    \<and> (\<forall>i<3601. theta (cell14 g) ! i = real i * 2 * pi / 3600
          \<and> A22 A ! i = - 5 * \<i>
          \<and> A11 A ! i = - 5 * \<i> * complex_of_real (cos (theta (cell14 g) ! i))
          \<and> A12 A ! i = 0
          \<and> A21 A ! i = 0
          \<and> S11 P ! i = 1 / 2 * (25 * (cos (theta (cell14 g) ! i))\<^sup>2 + 25))
    \<and> theta (cell14 g) ! 0 = 0 \<and> S11 P ! 0 = 25
    \<and> theta (cell14 g) ! 900 = pi / 2 \<and> S11 P ! 900 = 12.5"
proof -
  define th where "th = np_linspace 0 (2 * pi) 3601"
  have len: "length th = 3601"
    by (simp add: th_def)
  have nth: "th ! i = real i * 2 * pi / 3600" if "i < 3601" for i
    using np_linspace_nth [of 3601 i] that by (simp add: th_def)
  have th0: "th ! 0 = 0" and th900: "th ! 900 = pi / 2"
    using nth [of 0] nth [of 900] by simp_all
  obtain P where
    P: "phase_builder (map (\<lambda>i. - \<i> * 5 * complex_of_real (cos (th ! i))) [0..<3601])
          (map (\<lambda>i. 0) [0..<3601]) (map (\<lambda>i. 0) [0..<3601]) (map (\<lambda>i. - \<i> * 5) [0..<3601]) = Inr P"
    and S: "S11 P = map (\<lambda>i. 0.5 * (25 * (cos (th ! i))\<^sup>2 + 25)) [0..<3601]"
    using synthetic_phase_S11 [of th 3601] by blast
  let ?A = "\<lparr>A11 = map (\<lambda>i. - \<i> * 5 * complex_of_real (cos (th ! i))) [0..<3601],
             A12 = map (\<lambda>i. 0) [0..<3601],
             A21 = map (\<lambda>i. 0) [0..<3601],
             A22 = map (\<lambda>i. - \<i> * 5) [0..<3601]\<rparr>"
  have S0: "S11 P ! 0 = 25" and S900: "S11 P ! 900 = 12.5"
    by (simp_all add: S th0 th900)
  have Si: "S11 P ! i = 1 / 2 * (25 * (cos (th ! i))\<^sup>2 + 25)" if "i < 3601" for i
    using that by (simp add: S)
  show ?thesis
    unfolding cell14_theta th_def [symmetric] synthetic_amplitude [OF len, of 5]
    apply (intro exI [of _ ?A] exI [of _ P] conjI)
    subgoal by simp
    subgoal using P by simp
    subgoal by (simp add: Si nth)
    subgoal by (simp add: th0)
    subgoal by (simp add: S0)
    subgoal by (simp add: th900)
    subgoal by (simp add: S900)
    done
qed

theorem synthetic_round_trip_witness:
  "\<exists>A P. amplitude_builder 5
            (theta (cell14 \<lparr>kExt = 5, theta = [], points = [], ffp_z = [], ffp_y = [],
       bound_A22 = None, bound_A12 = None, bound_A11 = None, bound_A21 = None\<rparr>))
            (replicate 3601 (Vec3 0 0 1)) (replicate 3601 (Vec3 0 1 0)) = Inr A
    \<and> phase_builder (A11 A) (A12 A) (A21 A) (A22 A) = Inr P
    \<and> A22 A ! 1800 = - 5 * \<i> \<and> A11 A ! 1800 = 5 * \<i> \<and> A12 A ! 1800 = 0 \<and> A21 A ! 1800 = 0
    \<and> S11 P ! 1800 = 25 \<and> S11 P ! 900 = 12.5"
proof -
  let ?g = "\<lparr>kExt = 5, theta = [], points = [], ffp_z = [], ffp_y = [],
       bound_A22 = None, bound_A12 = None, bound_A11 = None, bound_A21 = None\<rparr>"
  from synthetic_round_trip [of ?g] obtain A P where
    run: "amplitude_builder 5 (theta (cell14 ?g)) (replicate 3601 (Vec3 0 0 1))
            (replicate 3601 (Vec3 0 1 0)) = Inr A"
      "phase_builder (A11 A) (A12 A) (A21 A) (A22 A) = Inr P"
    and all: "\<forall>i<3601. theta (cell14 ?g) ! i = real i * 2 * pi / 3600
          \<and> A22 A ! i = - 5 * \<i>
          \<and> A11 A ! i = - 5 * \<i> * complex_of_real (cos (theta (cell14 ?g) ! i))
          \<and> A12 A ! i = 0
          \<and> A21 A ! i = 0
          \<and> S11 P ! i = 1 / 2 * (25 * (cos (theta (cell14 ?g) ! i))\<^sup>2 + 25)"
    and at: "S11 P ! 900 = 12.5"
    by blast
  have "(1800::nat) < 3601"
    by simp
  from all [rule_format, OF this]
  have "A22 A ! 1800 = - 5 * \<i> \<and> A11 A ! 1800 = 5 * \<i> \<and> A12 A ! 1800 = 0 \<and> A21 A ! 1800 = 0
    \<and> S11 P ! 1800 = 25"
    by (elim conjE) simp
  with run at show ?thesis
    by blast
qed

section \<open>Arrays of different lengths\<close>

text \<open>
  C7, as the code has it. The notebook checks no lengths before the two cells and has no
  error of its own; lengths meet only in numpy's elementwise operations inside the cells.
  The amplitude cell raises numpy's \<open>ValueError\<close> exactly when the lengths of
  \<open>theta\<close> and \<open>F_z\<close>, or of \<open>theta\<close> and \<open>F_y\<close>, differ and neither is one
  (\<open>F_z\<close> and \<open>F_y\<close> are never compared with each other there); the phase cell raises it
  exactly when two of its four inputs have such lengths. An array of length one is
  broadcast, not rejected.
\<close>

theorem length_mismatch_raises_inside_builders:
  "(amplitude_builder k th fz fy = Inl ValueError \<longleftrightarrow> mismatch th fz \<or> mismatch th fy)
   \<and> (phase_builder a11 a12 a21 a22 = Inl ValueError \<longleftrightarrow>
        mismatch a11 a12 \<or> mismatch a11 a21 \<or> mismatch a11 a22
        \<or> mismatch a12 a21 \<or> mismatch a12 a22 \<or> mismatch a21 a22)"
  by (simp only: amplitude_builder_raises A12_expr_raises A11_expr_raises phase_builder_raises)

theorem length_mismatch_raises_inside_builders_witness:
  "amplitude_builder 5 [0, pi] [Vec3 1 0 0, Vec3 0 1 0, Vec3 0 0 1] [Vec3 1 0 0, Vec3 0 1 0]
     = Inl ValueError
   \<and> amplitude_builder 5 [0, pi] [Vec3 1 0 0, Vec3 0 1 0] [Vec3 1 0 0, Vec3 0 1 0]
     \<noteq> Inl ValueError
   \<and> phase_builder [1, 2] [1, 2, 3] [1, 2] [1, 2] = Inl ValueError
   \<and> phase_builder [1, 2] [3, 4] [5, 6] [7, 8] \<noteq> Inl ValueError"
  using length_mismatch_raises_inside_builders [of 5 "[0, pi]"
      "[Vec3 1 0 0, Vec3 0 1 0, Vec3 0 0 1]" "[Vec3 1 0 0, Vec3 0 1 0]"
      "[1, 2]" "[1, 2, 3]" "[1, 2]" "[1, 2]"]
    length_mismatch_raises_inside_builders [of 5 "[0, pi]" "[Vec3 1 0 0, Vec3 0 1 0]"
      "[Vec3 1 0 0, Vec3 0 1 0]" "[1, 2]" "[3, 4]" "[5, 6]" "[7, 8]"]
  by (simp add: mismatch_def)

text \<open>
  The claim as first stated, that far fields of different lengths make the computation
  fail before the builders run, fails for \<open>F_z\<close> of length two and \<open>F_y\<close> of length one:
  the amplitude cell returns four arrays, and the phase cell accepts them.
\<close>

theorem unequal_lengths_accepted_counterexample:
  "length [Vec3 1 0 0, Vec3 0 1 0] \<noteq> length [Vec3 0 0 1]
   \<and> amplitude_builder 5 [0, pi] [Vec3 1 0 0, Vec3 0 1 0] [Vec3 0 0 1]
       = Inr \<lparr>A11 = [0, 0], A12 = [0, 5 * \<i>], A21 = [- 5 * \<i>], A22 = [0, 0]\<rparr>
   \<and> phase_builder [0, 0] [0, 5 * \<i>] [- 5 * \<i>] [0, 0] \<noteq> Inl ValueError"
  by (simp add: amplitude_builder_def A22_expr_def A12_expr_def A11_expr_def A21_expr_def
      phase_builder_def S11_expr_def S12_expr_def S13_expr_def S14_expr_def
      S21_expr_def S22_expr_def S23_expr_def S24_expr_def
      S31_expr_def S32_expr_def S33_expr_def S34_expr_def
      S41_expr_def S42_expr_def S43_expr_def S44_expr_def
      np_defs row0_def row1_def row2_def broadcast_def)

section \<open>The amplitude cell and the notebook's variables\<close>

text \<open>
  C8. The amplitude cell is deterministic and keeps no state of its own. Its four
  statements read only \<open>kExt\<close>, \<open>theta\<close>, \<open>ffp_z\<close> and \<open>ffp_y\<close>: two runs from states
  that agree on these four end alike, with the same error or with the same \<open>A11\<close>,
  \<open>A12\<close>, \<open>A21\<close>, \<open>A22\<close>, whatever else the states hold, and what a run binds is
  the value of the amplitude builder as a function of the four inputs. The statements
  write only the four output names: a run leaves its inputs as they were, and a second
  run gives back the state of the first.
\<close>

theorem cell16_deterministic_stateless:
  assumes "kExt h = kExt g" and "theta h = theta g" and "ffp_z h = ffp_z g"
    and "ffp_y h = ffp_y g"
  shows "snd (cell16 h) = snd (cell16 g)
    \<and> bound_A22 (fst (cell16 h)) = bound_A22 (fst (cell16 g))
    \<and> (snd (cell16 g) = None \<longrightarrow>
          bound_A12 (fst (cell16 h)) = bound_A12 (fst (cell16 g))
        \<and> bound_A11 (fst (cell16 h)) = bound_A11 (fst (cell16 g))
        \<and> bound_A21 (fst (cell16 h)) = bound_A21 (fst (cell16 g)))
    \<and> (\<forall>A. amplitude_builder (kExt g) (theta g) (ffp_z g) (ffp_y g) = Inr A \<longrightarrow>
          cell16 g = (g\<lparr>bound_A22 := Some (A22 A), bound_A12 := Some (A12 A),
                        bound_A11 := Some (A11 A), bound_A21 := Some (A21 A)\<rparr>, None))
    \<and> (\<forall>e. amplitude_builder (kExt g) (theta g) (ffp_z g) (ffp_y g) = Inl e \<longrightarrow>
          snd (cell16 g) = Some e)
    \<and> kExt (fst (cell16 g)) = kExt g \<and> theta (fst (cell16 g)) = theta g
    \<and> points (fst (cell16 g)) = points g
    \<and> ffp_z (fst (cell16 g)) = ffp_z g \<and> ffp_y (fst (cell16 g)) = ffp_y g
    \<and> cell16 (fst (cell16 g)) = cell16 g"
proof (intro conjI allI impI)
  show "snd (cell16 h) = snd (cell16 g)"
    "bound_A22 (fst (cell16 h)) = bound_A22 (fst (cell16 g))"
    using assms by (auto simp add: cell16_run split: sum.splits)
  show "kExt (fst (cell16 g)) = kExt g" "theta (fst (cell16 g)) = theta g"
    "points (fst (cell16 g)) = points g" "ffp_z (fst (cell16 g)) = ffp_z g"
    "ffp_y (fst (cell16 g)) = ffp_y g"
    by (auto simp add: cell16_run split: sum.splits)
  show "cell16 (fst (cell16 g)) = cell16 g"
    by (auto simp add: cell16_run split: sum.splits)
next
  assume "snd (cell16 g) = None"
  then show "bound_A12 (fst (cell16 h)) = bound_A12 (fst (cell16 g))"
    "bound_A11 (fst (cell16 h)) = bound_A11 (fst (cell16 g))"
    "bound_A21 (fst (cell16 h)) = bound_A21 (fst (cell16 g))"
    using assms by (auto simp add: cell16_run split: sum.splits)
next
  fix A assume "amplitude_builder (kExt g) (theta g) (ffp_z g) (ffp_y g) = Inr A"
  then show "cell16 g = (g\<lparr>bound_A22 := Some (A22 A), bound_A12 := Some (A12 A),
                        bound_A11 := Some (A11 A), bound_A21 := Some (A21 A)\<rparr>, None)"
    by (rule cell16_returns)
next
  fix e assume "amplitude_builder (kExt g) (theta g) (ffp_z g) (ffp_y g) = Inl e"
  then show "snd (cell16 g) = Some e"
    by (rule cell16_raises)
qed

theorem cell16_deterministic_stateless_witness:
  "cell16 \<lparr>kExt = 5, theta = [0], points = [], ffp_z = [Vec3 1 2 3], ffp_y = [Vec3 4 5 6],
       bound_A22 = None, bound_A12 = None, bound_A11 = None, bound_A21 = None\<rparr>
   = (\<lparr>kExt = 5, theta = [0], points = [], ffp_z = [Vec3 1 2 3], ffp_y = [Vec3 4 5 6],
       bound_A22 = Some [- 15 * \<i>], bound_A12 = Some [- 10 * \<i>],
       bound_A11 = Some [- 25 * \<i>], bound_A21 = Some [- 30 * \<i>]\<rparr>, None)
   \<and> snd (cell16 \<lparr>kExt = 5, theta = [0], points = [(1, 0, 0)], ffp_z = [Vec3 1 2 3],
       ffp_y = [Vec3 4 5 6], bound_A22 = Some [], bound_A12 = None, bound_A11 = Some [1],
       bound_A21 = None\<rparr>) = None
   \<and> bound_A11 (fst (cell16 \<lparr>kExt = 5, theta = [0], points = [(1, 0, 0)],
       ffp_z = [Vec3 1 2 3], ffp_y = [Vec3 4 5 6], bound_A22 = Some [], bound_A12 = None,
       bound_A11 = Some [1], bound_A21 = None\<rparr>)) = Some [- 25 * \<i>]"
proof -
  let ?g = "\<lparr>kExt = 5, theta = [0], points = [], ffp_z = [Vec3 1 2 3], ffp_y = [Vec3 4 5 6],
       bound_A22 = None, bound_A12 = None, bound_A11 = None, bound_A21 = None\<rparr>"
  let ?h = "\<lparr>kExt = 5, theta = [0], points = [(1, 0, 0)], ffp_z = [Vec3 1 2 3],
       ffp_y = [Vec3 4 5 6], bound_A22 = Some [], bound_A12 = None, bound_A11 = Some [1],
       bound_A21 = None\<rparr>"
  have run: "amplitude_builder (kExt ?g) (theta ?g) (ffp_z ?g) (ffp_y ?g)
      = Inr \<lparr>A11 = [- 25 * \<i>], A12 = [- 10 * \<i>], A21 = [- 30 * \<i>], A22 = [- 15 * \<i>]\<rparr>"
    using amplitude_builder_equal_lengths [of "[0]" 1 "[Vec3 1 2 3]" "[Vec3 4 5 6]" 5]
    by simp
  have "kExt ?h = kExt ?g" "theta ?h = theta ?g" "ffp_z ?h = ffp_z ?g" "ffp_y ?h = ffp_y ?g"
    by simp_all
  note t = cell16_deterministic_stateless [OF this]
  from t have ret: "\<forall>A. amplitude_builder (kExt ?g) (theta ?g) (ffp_z ?g) (ffp_y ?g) = Inr A \<longrightarrow>
          cell16 ?g = (?g\<lparr>bound_A22 := Some (A22 A), bound_A12 := Some (A12 A),
                        bound_A11 := Some (A11 A), bound_A21 := Some (A21 A)\<rparr>, None)"
    and err: "snd (cell16 ?h) = snd (cell16 ?g)"
    and out: "snd (cell16 ?g) = None \<longrightarrow>
          bound_A12 (fst (cell16 ?h)) = bound_A12 (fst (cell16 ?g))
        \<and> bound_A11 (fst (cell16 ?h)) = bound_A11 (fst (cell16 ?g))
        \<and> bound_A21 (fst (cell16 ?h)) = bound_A21 (fst (cell16 ?g))"
    by blast+
  from ret [rule_format, OF run] have g: "cell16 ?g =
      (\<lparr>kExt = 5, theta = [0], points = [], ffp_z = [Vec3 1 2 3], ffp_y = [Vec3 4 5 6],
       bound_A22 = Some [- 15 * \<i>], bound_A12 = Some [- 10 * \<i>],
       bound_A11 = Some [- 25 * \<i>], bound_A21 = Some [- 30 * \<i>]\<rparr>, None)"
    by simp
  with err out show ?thesis
    by simp
qed

text \<open>
  C10. The two polarizations do not interfere: for inputs of one length \<open>N\<close>, replacing
  \<open>F_y\<close> by any other far field leaves \<open>A22\<close> and \<open>A12\<close> as they were, and replacing
  \<open>F_z\<close> leaves \<open>A11\<close> and \<open>A21\<close> as they were; \<open>A22\<close> and \<open>A12\<close> are the values of
  expressions in \<open>k\<close>, \<open>theta\<close> and \<open>F_z\<close> alone, \<open>A11\<close> and \<open>A21\<close> of expressions in
  \<open>k\<close>, \<open>theta\<close> and \<open>F_y\<close> alone.
\<close>

theorem polarizations_do_not_interfere:
  assumes "length th = N" and "length fz = N" and "length fy = N"
    and "length fz' = N" and "length fy' = N"
  shows "\<exists>A B C. amplitude_builder k th fz fy = Inr A
    \<and> amplitude_builder k th fz fy' = Inr B
    \<and> amplitude_builder k th fz' fy = Inr C
    \<and> A22 B = A22 A \<and> A12 B = A12 A
    \<and> A11 C = A11 A \<and> A21 C = A21 A
    \<and> A22_expr k fz = Inr (A22 A) \<and> A12_expr k th fz = Inr (A12 A)
    \<and> A11_expr k th fy = Inr (A11 A) \<and> A21_expr k fy = Inr (A21 A)"
proof -
  note run = amplitude_builder_equal_lengths [OF assms(1,2,3), of k]
  note run_y = amplitude_builder_equal_lengths [OF assms(1,2,5), of k]
  note run_z = amplitude_builder_equal_lengths [OF assms(1,4,3), of k]
  from run [unfolded amplitude_builder_Inr] show ?thesis
    unfolding run run_y run_z by simp
qed

theorem polarizations_do_not_interfere_witness:
  "\<exists>A B C. amplitude_builder 5 [0] [Vec3 1 2 3] [Vec3 4 5 6] = Inr A
    \<and> amplitude_builder 5 [0] [Vec3 1 2 3] [Vec3 7 8 9] = Inr B
    \<and> amplitude_builder 5 [0] [Vec3 9 8 7] [Vec3 4 5 6] = Inr C
    \<and> A22 B = A22 A \<and> A12 B = A12 A \<and> A11 C = A11 A \<and> A21 C = A21 A"
  using polarizations_do_not_interfere [of "[0]" 1 "[Vec3 1 2 3]" "[Vec3 4 5 6]"
      "[Vec3 9 8 7]" "[Vec3 7 8 9]" 5]
  by auto

end
